theory Spec2Isabelle
  imports Main
begin

section \<open>Document tree\<close>

text \<open>
  The scraper works on the tree that the HTML parser hands back. A node is either a run of
  text or an element with a tag name, the list of its classes (the parser splits the class
  attribute on white space; the list is empty when there is no class attribute), its other
  attributes as name/value pairs, and its children in document order.
\<close>

datatype node =
    Text string
  | Element string "string list" "(string \<times> string) list" "node list"

fun descendants :: "node \<Rightarrow> node list" where
  "descendants (Text s) = []"
| "descendants (Element t cs ats ks) = concat (map (\<lambda>k. k # descendants k) ks)"

text \<open>\<open>node.text\<close>: every string below the node, concatenated in document order.\<close>

fun text_of :: "node \<Rightarrow> string" where
  "text_of (Text s) = s"
| "text_of (Element t cs ats ks) = concat (map text_of ks)"

fun tag_of :: "node \<Rightarrow> string option" where
  "tag_of (Text s) = None"
| "tag_of (Element t cs ats ks) = Some t"

fun classes_of :: "node \<Rightarrow> string list" where
  "classes_of (Text s) = []"
| "classes_of (Element t cs ats ks) = cs"

fun attrs_of :: "node \<Rightarrow> (string \<times> string) list" where
  "attrs_of (Text s) = []"
| "attrs_of (Element t cs ats ks) = ats"

text \<open>\<open>' '.join(classes)\<close>\<close>

fun join_sp :: "string list \<Rightarrow> string" where
  "join_sp [] = []"
| "join_sp [c] = c"
| "join_sp (c # d # cs) = c @ '' '' @ join_sp (d # cs)"

text \<open>
  How the tree library matches \<open>class_=c\<close> against the multi-valued class attribute: some
  single class equals \<open>c\<close>, or the classes joined by one space equal \<open>c\<close>.
\<close>

definition class_matches :: "string \<Rightarrow> string list \<Rightarrow> bool" where
  "class_matches c cs = (c \<in> set cs \<or> (cs \<noteq> [] \<and> join_sp cs = c))"

definition is_tag :: "string \<Rightarrow> node \<Rightarrow> bool" where
  "is_tag t n = (tag_of n = Some t)"

text \<open>\<open>tag.has_attr(a)\<close> and \<open>tag[a]\<close>.\<close>

definition has_attr :: "string \<Rightarrow> node \<Rightarrow> bool" where
  "has_attr a n = (map_of (attrs_of n) a \<noteq> None)"

definition get_attr :: "string \<Rightarrow> node \<Rightarrow> string" where
  "get_attr a n = (case map_of (attrs_of n) a of Some v \<Rightarrow> v | None \<Rightarrow> [])"

text \<open>
  \<open>find_all(tag)\<close>, \<open>find_all(tag, class_=c)\<close>, \<open>find_all(tag, href=True)\<close> and the
  matching \<open>find\<close>: all proper descendants that match, in document order; \<open>find\<close> is the
  first of them or \<open>None\<close>.
\<close>

definition find_all_tag :: "string \<Rightarrow> node \<Rightarrow> node list" where
  "find_all_tag t n = filter (is_tag t) (descendants n)"

definition find_all_class :: "string \<Rightarrow> string \<Rightarrow> node \<Rightarrow> node list" where
  "find_all_class t c n =
     filter (\<lambda>k. is_tag t k \<and> class_matches c (classes_of k)) (descendants n)"

definition find_all_attr :: "string \<Rightarrow> string \<Rightarrow> node \<Rightarrow> node list" where
  "find_all_attr t a n = filter (\<lambda>k. is_tag t k \<and> has_attr a k) (descendants n)"

definition find_tag :: "string \<Rightarrow> node \<Rightarrow> node option" where
  "find_tag t n = (case find_all_tag t n of [] \<Rightarrow> None | k # ks \<Rightarrow> Some k)"

definition find_class :: "string \<Rightarrow> string \<Rightarrow> node \<Rightarrow> node option" where
  "find_class t c n = (case find_all_class t c n of [] \<Rightarrow> None | k # ks \<Rightarrow> Some k)"

section \<open>String operations of the host language\<close>

text \<open>
  Strings are lists of characters; a character stands for a code point below 256. The white
  space that \<open>str.strip()\<close> removes in that range is tab, line feed, vertical tab, form feed,
  carriage return, the four separators 28 to 31, space, next line (133) and no-break space
  (160).
\<close>

definition is_space :: "char \<Rightarrow> bool" where
  "is_space c = ((of_char c :: nat) \<in> {9, 10, 11, 12, 13, 28, 29, 30, 31, 32, 133, 160})"

definition strip :: "string \<Rightarrow> string" where
  "strip s = rev (dropWhile is_space (rev (dropWhile is_space s)))"

text \<open>\<open>s.startswith(p)\<close>\<close>

definition startswith :: "string \<Rightarrow> string \<Rightarrow> bool" where
  "startswith s p = (take (length p) s = p)"

text \<open>
  \<open>s.split(c)\<close> for a separator of one character, which is all the scraper uses: the pieces
  between the separators, empty pieces kept, so the result has one more piece than \<open>s\<close> has
  separators and is never empty.
\<close>

fun split :: "char \<Rightarrow> string \<Rightarrow> string list" where
  "split c [] = [[]]"
| "split c (x # xs) =
     (if x = c then [] # split c xs
      else (case split c xs of [] \<Rightarrow> [[x]] | w # ws \<Rightarrow> (x # w) # ws))"

text \<open>
  \<open>s.replace(old, new)\<close>: every occurrence of \<open>old\<close>, found left to right without overlap,
  becomes \<open>new\<close>. With an empty \<open>old\<close> the host language puts \<open>new\<close> before every character
  and at the end.
\<close>

function replace :: "string \<Rightarrow> string \<Rightarrow> string \<Rightarrow> string" where
  "replace old new [] = (if old = [] then new else [])"
| "replace old new (c # cs) =
     (if old = [] then new @ c # replace old new cs
      else if take (length old) (c # cs) = old
        then new @ replace old new (drop (length old) (c # cs))
      else c # replace old new cs)"
  by pat_completeness auto
termination
  by (relation "measure (\<lambda>(old, new, s). length s)") auto

text \<open>Indexing a list: out of range raises \<open>IndexError\<close> in the host language.\<close>

datatype exn =
    RequestException string
  | IndexError
  | OtherException string

definition index :: "'a list \<Rightarrow> nat \<Rightarrow> exn + 'a" where
  "index xs i = (if i < length xs then Inr (xs ! i) else Inl IndexError)"

text \<open>Sequencing two steps that may raise: the first exception raised wins.\<close>

definition and_then :: "exn + 'a \<Rightarrow> ('a \<Rightarrow> exn + 'b) \<Rightarrow> exn + 'b" where
  "and_then r f = (case r of Inl e \<Rightarrow> Inl e | Inr v \<Rightarrow> f v)"

text \<open>\<open>str(exception)\<close>\<close>

fun str_exn :: "exn \<Rightarrow> string" where
  "str_exn (RequestException m) = m"
| "str_exn IndexError = ''list index out of range''"
| "str_exn (OtherException m) = m"

section \<open>PoleStudioScraper: the field extractors\<close>

text \<open>
  Each method of the class reads \<open>self.soup\<close> only, so each becomes a function of the
  document. A method with no raising operation has a plain result; \<open>extract_address\<close> and
  \<open>extract_rating\<close> index a list and so return \<open>exn + _\<close>.
\<close>

definition extract_overview_buttons :: "node \<Rightarrow> string list" where
  "extract_overview_buttons soup =
     (let buttons_divs = find_all_class ''div'' ''MuiStack-root css-sgccrm'' soup
      in concat (map (\<lambda>d. map text_of (find_all_tag ''a'' d)) buttons_divs))"

definition extract_pole_studio_name :: "node \<Rightarrow> string option" where
  "extract_pole_studio_name soup =
     (case find_class ''h1'' ''MuiTypography-root MuiTypography-h1 css-qinhw0'' soup of
        Some name_element \<Rightarrow> Some (text_of name_element)
      | None \<Rightarrow> None)"

text \<open>
  The contact dictionary maps each of its keys to an optional string, so it is a map from
  keys to \<open>string option\<close>; a key that the dictionary lacks is outside the map's domain.
\<close>

type_synonym contact_info = "string \<rightharpoonup> string option"

definition contact_init :: contact_info where
  "contact_init = [''E-Mail'' \<mapsto> None, ''Homepage'' \<mapsto> None, ''Telefon'' \<mapsto> None]"

text \<open>The body of the inner loop, for one anchor that has an href.\<close>

definition contact_anchor :: "contact_info \<Rightarrow> node \<Rightarrow> contact_info" where
  "contact_anchor ci a =
     (let href = get_attr ''href'' a in
      if startswith href ''mailto:'' then ci(''E-Mail'' \<mapsto> Some (replace ''mailto:'' [] href))
      else if startswith href ''tel:'' then ci(''Telefon'' \<mapsto> Some (replace ''tel:'' [] href))
      else ci(''Homepage'' \<mapsto> Some href))"

definition extract_contact_info :: "node \<Rightarrow> contact_info" where
  "extract_contact_info soup =
     (let contact_divs = find_all_class ''div'' ''css-1x2phcg'' soup
      in foldl (\<lambda>ci d. foldl contact_anchor ci (find_all_attr ''a'' ''href'' d))
           contact_init contact_divs)"

text \<open>
  The address tuple is built left to right: the segments, then token 2 and token 1 of
  segment 1 split at spaces, then segment 0. Without an address element the result is four
  times \<open>None\<close>.
\<close>

type_synonym address =
  "string list option \<times> string option \<times> string option \<times> string option"

definition extract_address :: "node \<Rightarrow> exn + address" where
  "extract_address soup =
     (case find_class ''p'' ''MuiTypography-root MuiTypography-body1 css-1619old'' soup of
        Some address_element \<Rightarrow>
          (let address_text = split CHR '','' (text_of address_element) in
           and_then (index address_text 1) (\<lambda>s1.
           and_then (index (split CHR '' '' s1) 2) (\<lambda>t2.
           and_then (index address_text 1) (\<lambda>s1'.
           and_then (index (split CHR '' '' s1') 1) (\<lambda>t1.
           and_then (index address_text 0) (\<lambda>s0.
           Inr (Some address_text, Some t2, Some t1, Some s0)))))))
      | None \<Rightarrow> Inr (None, None, None, None))"

definition extract_description :: "node \<Rightarrow> string option" where
  "extract_description soup =
     (case find_class ''div'' ''MuiBox-root css-0'' soup of
        Some description_element \<Rightarrow> Some (text_of description_element)
      | None \<Rightarrow> None)"

definition extract_rating :: "node \<Rightarrow> exn + (string option \<times> string option)" where
  "extract_rating soup =
     (case find_class ''p'' ''MuiTypography-root MuiTypography-body1 css-2g7rhg'' soup of
        Some rating_element \<Rightarrow>
          (let parts = split CHR ''('' (text_of rating_element) in
           and_then (index parts 0) (\<lambda>p0.
           and_then (index parts 1) (\<lambda>p1.
           Inr (Some (strip p0), Some (strip (replace '')'' [] p1))))))
      | None \<Rightarrow> Inr (None, None))"

text \<open>
  One item of the rating factors: kept when both paragraphs are found below it, and then
  rendered as \<open>label: value\<close>.
\<close>

definition rating_factor :: "node \<Rightarrow> string option" where
  "rating_factor item =
     (case find_class ''p'' ''MuiTypography-root MuiTypography-body1 css-1k55edk'' item of
        None \<Rightarrow> None
      | Some l \<Rightarrow>
          (case find_class ''p'' ''MuiTypography-root MuiTypography-body1 css-1y0caop'' item of
             None \<Rightarrow> None
           | Some v \<Rightarrow> Some (text_of l @ '': '' @ text_of v)))"

definition extract_rating_factors :: "node \<Rightarrow> string list" where
  "extract_rating_factors soup =
     (let items = find_all_class ''div'' ''MuiStack-root css-95g4uk'' soup
      in List.map_filter rating_factor items)"

definition extract_art :: "node \<Rightarrow> string list" where
  "extract_art soup =
     (let art_elements = find_all_class ''p'' ''MuiTypography-root MuiTypography-body1 css-6ik050'' soup
      in map text_of art_elements)"

definition extract_sale :: "node \<Rightarrow> string option" where
  "extract_sale soup =
     (case find_class ''p'' ''MuiTypography-root MuiTypography-body1 css-153qxhx'' soup of
        Some sale_element \<Rightarrow> Some (text_of sale_element)
      | None \<Rightarrow> None)"

text \<open>
  One picture box: kept when its first \<open>img\<close> descendant exists and has a \<open>src\<close>, whose
  value is the entry.
\<close>

definition image_url :: "node \<Rightarrow> string option" where
  "image_url d =
     (case find_tag ''img'' d of
        None \<Rightarrow> None
      | Some img \<Rightarrow> if has_attr ''src'' img then Some (get_attr ''src'' img) else None)"

definition extract_image_urls :: "node \<Rightarrow> string list" where
  "extract_image_urls soup =
     (let pictures = find_all_class ''div'' ''MuiBox-root css-1fivxf'' soup
      in List.map_filter image_url pictures)"

section \<open>ScraperErrorManager and the batch loop\<close>

text \<open>
  The logger receives records at level error or warning; the loop prints one line per
  locator it could process. Both are kept as lists in the order of the calls. A printed line
  \<open>Buttons for url: list\<close> is kept as the locator and the list.
\<close>

datatype log_entry = LogError string | LogWarning string

datatype out_line = Buttons string "string list"

record state =
  printed :: "out_line list"
  logged :: "log_entry list"

definition log_error :: "string \<Rightarrow> state \<Rightarrow> state" where
  "log_error message st = st\<lparr>logged := logged st @ [LogError message]\<rparr>"

definition log_warning :: "string \<Rightarrow> state \<Rightarrow> state" where
  "log_warning message st = st\<lparr>logged := logged st @ [LogWarning message]\<rparr>"

definition handle_url_error :: "string \<Rightarrow> exn \<Rightarrow> state \<Rightarrow> state" where
  "handle_url_error url e st =
     log_error (''Error accessing URL '' @ [CHR 0x27] @ url @ [CHR 0x27] @ '': '' @ str_exn e) st"

definition handle_element_error :: "string \<Rightarrow> exn \<Rightarrow> state \<Rightarrow> state" where
  "handle_element_error element_name e st =
     log_warning
       (''Error accessing element '' @ [CHR 0x27] @ element_name @ [CHR 0x27] @ '': '' @ str_exn e) st"

text \<open>
  Constructing the scraper fetches and parses the page: \<open>load\<close> stands for both, and gives
  the document or the exception raised (of class \<open>Exception\<close>). One turn of the loop: a
  request exception goes to \<open>handle_url_error\<close>, any other to \<open>handle_element_error\<close>, and
  a document has its overview buttons printed.
\<close>

definition step :: "(string \<Rightarrow> exn + node) \<Rightarrow> state \<Rightarrow> string \<Rightarrow> state" where
  "step load st url =
     (case load url of
        Inr soup \<Rightarrow> st\<lparr>printed := printed st @ [Buttons url (extract_overview_buttons soup)]\<rparr>
      | Inl (RequestException m) \<Rightarrow> handle_url_error url (RequestException m) st
      | Inl e \<Rightarrow> handle_element_error ''overview buttons'' e st)"

definition batch :: "(string \<Rightarrow> exn + node) \<Rightarrow> state \<Rightarrow> string list \<Rightarrow> state" where
  "batch load st urls = foldl (step load) st urls"

definition start :: state where
  "start = \<lparr>printed = [], logged = []\<rparr>"

text \<open>The module runs the loop over its two locators, from nothing printed or logged.\<close>

definition url_list_s :: "string list" where
  "url_list_s = [''https://www.eversports.de/s/poda-studio'', ''https://www.eversports.de/s/nordpole'']"

definition main :: "(string \<Rightarrow> exn + node) \<Rightarrow> state" where
  "main load = batch load start url_list_s"

text \<open>
  The anchors in the order in which the two nested loops of \<open>extract_contact_info\<close> reach
  them: the matching divs in document order and, for each, the anchors with an href below
  it. An anchor below two matching divs, one inside the other, is reached twice.
\<close>

definition contact_anchors :: "node \<Rightarrow> node list" where
  "contact_anchors soup =
     concat (map (find_all_attr ''a'' ''href'') (find_all_class ''div'' ''css-1x2phcg'' soup))"

section \<open>The rating as the specification words it\<close>

text \<open>
  For comparison with \<open>extract_rating\<close>: the text is cut at its first opening parenthesis,
  the left part stripped is the score, the right part with every closing parenthesis
  removed and stripped is the count, and a text without an opening parenthesis gives no
  rating.
\<close>

definition rating_as_specified :: "string \<Rightarrow> (string \<times> string) option" where
  "rating_as_specified t =
     (if CHR ''('' \<in> set t
      then Some (strip (takeWhile (\<lambda>c. c \<noteq> CHR ''('') t),
                 strip (filter (\<lambda>c. c \<noteq> CHR '')'') (tl (dropWhile (\<lambda>c. c \<noteq> CHR ''('') t))))
      else None)"

definition specified_extract_rating :: "node \<Rightarrow> exn + (string option \<times> string option)" where
  "specified_extract_rating soup =
     (case find_class ''p'' ''MuiTypography-root MuiTypography-body1 css-2g7rhg'' soup of
        None \<Rightarrow> Inr (None, None)
      | Some rating_element \<Rightarrow>
          (case rating_as_specified (text_of rating_element) of
             None \<Rightarrow> Inr (None, None)
           | Some (score, reviews) \<Rightarrow> Inr (Some score, Some reviews)))"

section \<open>Example documents\<close>

text \<open>
  A page with two overview buttons, a loader for which the locator \<open>bad\<close> times out, and
  one for which the first locator of the module does.
\<close>

definition page :: node where
  "page = Element ''[document]'' [] []
     [Element ''div'' [''MuiStack-root'', ''css-sgccrm''] []
        [Element ''a'' [] [] [Text ''Kurse''], Element ''a'' [] [] [Text ''Preise'']]]"

definition world :: "string \<Rightarrow> exn + node" where
  "world u = (if u = ''bad'' then Inl (RequestException ''timeout'') else Inr page)"

definition poda_down :: "string \<Rightarrow> exn + node" where
  "poda_down u =
     (if u = ''https://www.eversports.de/s/poda-studio'' then Inl (RequestException ''timeout'')
      else Inr page)"

text \<open>
  Contact boxes: one with a phone, a homepage and a mail anchor, one with two mail anchors,
  and one whose first mail anchor sits in a second contact box inside the first.
\<close>

definition anchor :: "string \<Rightarrow> node" where
  "anchor h = Element ''a'' [] [(''href'', h)] []"

definition contact_page :: node where
  "contact_page = Element ''[document]'' [] []
     [Element ''div'' [''css-1x2phcg''] []
        [anchor ''tel:123'', anchor ''https://example.com'', anchor ''mailto:a@x.com'']]"

definition two_mail_page :: node where
  "two_mail_page = Element ''[document]'' [] []
     [Element ''div'' [''css-1x2phcg''] []
        [anchor ''mailto:a@x.com'', anchor ''mailto:b@x.com'']]"

definition nested_box :: node where
  "nested_box = Element ''div'' [''css-1x2phcg''] []
     [Element ''div'' [''css-1x2phcg''] [] [anchor ''mailto:a@x.com''],
      anchor ''mailto:b@x.com'']"

definition nested_page :: node where
  "nested_page = Element ''[document]'' [] [] [nested_box]"

definition bare_contact_page :: node where
  "bare_contact_page = Element ''[document]'' [] []
     [Element ''div'' [''css-1x2phcg''] [] [Element ''span'' [] [] [Text ''Kontakt'']]]"

text \<open>
  A page with nothing in it, and a page with three rating items and three picture boxes of
  which the middle one of each lacks a required part.
\<close>

definition empty_page :: node where
  "empty_page = Element ''[document]'' [] [] []"

definition para :: "string \<Rightarrow> string \<Rightarrow> node" where
  "para c t = Element ''p'' [''MuiTypography-root'', ''MuiTypography-body1'', c] [] [Text t]"

definition sequence_page :: node where
  "sequence_page = Element ''[document]'' [] []
     [Element ''div'' [''MuiStack-root'', ''css-95g4uk''] []
        [para ''css-1k55edk'' ''Sauberkeit'', para ''css-1y0caop'' ''4.9''],
      Element ''div'' [''MuiStack-root'', ''css-95g4uk''] [] [para ''css-1k55edk'' ''Lage''],
      Element ''div'' [''MuiStack-root'', ''css-95g4uk''] []
        [para ''css-1k55edk'' ''Service'', para ''css-1y0caop'' ''4.7''],
      Element ''div'' [''MuiBox-root'', ''css-1fivxf''] [] [Element ''img'' [] [(''src'', ''a.jpg'')] []],
      Element ''div'' [''MuiBox-root'', ''css-1fivxf''] [] [Element ''img'' [] [(''alt'', ''x'')] []],
      Element ''div'' [''MuiBox-root'', ''css-1fivxf''] [] [Element ''img'' [] [(''src'', ''c.jpg'')] []]]"

text \<open>Pages with one rating paragraph, and with one address paragraph, of a given text.\<close>

definition rating_page :: "string \<Rightarrow> node" where
  "rating_page t = Element ''[document]'' [] [] [para ''css-2g7rhg'' t]"

definition address_page :: "string \<Rightarrow> node" where
  "address_page t = Element ''[document]'' [] [] [para ''css-1619old'' t]"

section \<open>The batch loop\<close>

lemma batch_append: "batch load st (us @ vs) = batch load (batch load st us) vs"
  by (simp add: batch_def)

lemma step_from_start:
  "printed (step load st u) = printed st @ printed (step load start u) \<and>
   logged (step load st u) = logged st @ logged (step load start u)"
  by (simp add: step_def start_def handle_url_error_def handle_element_error_def
      log_error_def log_warning_def split: sum.splits exn.splits)

lemma batch_from_start:
  "printed (batch load st us) = printed st @ printed (batch load start us) \<and>
   logged (batch load st us) = logged st @ logged (batch load start us)"
proof (induction us rule: rev_induct)
  case Nil
  show ?case by (simp add: batch_def start_def)
next
  case (snoc u us)
  have "batch load st (us @ [u]) = step load (batch load st us) u"
    and "batch load start (us @ [u]) = step load (batch load start us) u"
    by (simp_all add: batch_def)
  then show ?case
    using snoc step_from_start [of load "batch load st us" u]
      step_from_start [of load "batch load start us" u]
    by simp
qed

lemma step_request_exception:
  "load u = Inl (RequestException m) \<Longrightarrow>
   step load st u =
     st\<lparr>logged := logged st @
        [LogError (''Error accessing URL '' @ [CHR 0x27] @ u @ [CHR 0x27] @ '': '' @ m)]\<rparr>"
  by (simp add: step_def handle_url_error_def log_error_def)

text \<open>
  Claim C1. When loading a locator raises a request exception, that turn of the loop prints
  nothing and logs exactly one error record, whose message names the locator; the loop then
  goes on: what a batch prints is what it printed before that locator followed by what the
  remaining locators print, and its log is the log so far, the one error record, and the
  log of the remaining locators.
\<close>

theorem retrieval_failure_isolated:
  assumes "load u = Inl (RequestException m)"
  shows "step load st u =
           st\<lparr>logged := logged st @
             [LogError (''Error accessing URL '' @ [CHR 0x27] @ u @ [CHR 0x27] @ '': '' @ m)]\<rparr> \<and>
         printed (batch load st (us @ u # vs)) =
           printed (batch load st us) @ printed (batch load start vs) \<and>
         logged (batch load st (us @ u # vs)) =
           logged (batch load st us) @
           [LogError (''Error accessing URL '' @ [CHR 0x27] @ u @ [CHR 0x27] @ '': '' @ m)] @
           logged (batch load start vs)"
proof -
  let ?e = "LogError (''Error accessing URL '' @ [CHR 0x27] @ u @ [CHR 0x27] @ '': '' @ m)"
  let ?mid = "step load (batch load st us) u"
  have s: "step load st' u = st'\<lparr>logged := logged st' @ [?e]\<rparr>" for st'
    using assms by (rule step_request_exception)
  have b: "batch load st (us @ u # vs) = batch load ?mid vs"
    by (simp add: batch_def)
  have p: "printed (batch load ?mid vs) = printed ?mid @ printed (batch load start vs)"
    and l: "logged (batch load ?mid vs) = logged ?mid @ logged (batch load start vs)"
    using batch_from_start [of load ?mid vs] by simp_all
  show ?thesis
    using s [of st] b p l by (simp add: s [of "batch load st us"])
qed

theorem retrieval_failure_isolated_witness:
  "world ''bad'' = Inl (RequestException ''timeout'') \<and>
   printed (batch world start ([''ok1''] @ ''bad'' # [''ok2''])) =
     [Buttons ''ok1'' [''Kurse'', ''Preise''], Buttons ''ok2'' [''Kurse'', ''Preise'']] \<and>
   logged (batch world start ([''ok1''] @ ''bad'' # [''ok2''])) =
     [LogError (''Error accessing URL '' @ [CHR 0x27] @ ''bad'' @ [CHR 0x27] @ '': timeout'')] \<and>
   poda_down ''https://www.eversports.de/s/poda-studio'' = Inl (RequestException ''timeout'') \<and>
   printed (main poda_down) =
     [Buttons ''https://www.eversports.de/s/nordpole'' [''Kurse'', ''Preise'']] \<and>
   logged (main poda_down) =
     [LogError (''Error accessing URL '' @ [CHR 0x27] @
        ''https://www.eversports.de/s/poda-studio'' @ [CHR 0x27] @ '': timeout'')]"
proof -
  have h: "world ''bad'' = Inl (RequestException ''timeout'')"
    by (simp add: world_def)
  have b: "extract_overview_buttons page = [''Kurse'', ''Preise'']"
    by (simp add: page_def extract_overview_buttons_def find_all_class_def find_all_tag_def
        is_tag_def class_matches_def)
  have o: "batch world start [u] = start\<lparr>printed := [Buttons u [''Kurse'', ''Preise'']]\<rparr>"
    if "u \<noteq> ''bad''" for u
    using that by (simp add: batch_def step_def world_def b start_def)
  have first: "printed (batch world start ([''ok1''] @ ''bad'' # [''ok2''])) =
     [Buttons ''ok1'' [''Kurse'', ''Preise''], Buttons ''ok2'' [''Kurse'', ''Preise'']] \<and>
   logged (batch world start ([''ok1''] @ ''bad'' # [''ok2''])) =
     [LogError (''Error accessing URL '' @ [CHR 0x27] @ ''bad'' @ [CHR 0x27] @ '': timeout'')]"
    using retrieval_failure_isolated [of world "''bad''" "''timeout''" start "[''ok1'']" "[''ok2'']"] h
    by (simp add: o) (simp add: start_def)
  have h': "poda_down ''https://www.eversports.de/s/poda-studio'' = Inl (RequestException ''timeout'')"
    by (simp add: poda_down_def)
  have o': "batch poda_down start [''https://www.eversports.de/s/nordpole''] =
      start\<lparr>printed := [Buttons ''https://www.eversports.de/s/nordpole'' [''Kurse'', ''Preise'']]\<rparr>"
    by (simp add: batch_def step_def poda_down_def b start_def)
  have e: "batch poda_down start [] = start"
    by (simp add: batch_def)
  have m: "main poda_down =
      batch poda_down start ([] @ ''https://www.eversports.de/s/poda-studio'' #
        [''https://www.eversports.de/s/nordpole''])"
    by (simp add: main_def url_list_s_def)
  have second: "printed (main poda_down) =
     [Buttons ''https://www.eversports.de/s/nordpole'' [''Kurse'', ''Preise'']] \<and>
   logged (main poda_down) =
     [LogError (''Error accessing URL '' @ [CHR 0x27] @
        ''https://www.eversports.de/s/poda-studio'' @ [CHR 0x27] @ '': timeout'')]"
    unfolding m
    using retrieval_failure_isolated [of poda_down "''https://www.eversports.de/s/poda-studio''"
        "''timeout''" start "[]" "[''https://www.eversports.de/s/nordpole'']"] h'
    by (simp add: o' e) (simp add: start_def)
  show ?thesis
    using h first h' second by (intro conjI) (rule h, simp_all only: simp_thms)
qed

section \<open>Contact extraction\<close>

lemma foldl_concat_nested:
  "foldl (\<lambda>acc x. foldl f acc (g x)) acc xs = foldl f acc (concat (map g xs))"
  by (induction xs arbitrary: acc) simp_all

lemma extract_contact_info_anchors:
  "extract_contact_info soup = foldl contact_anchor contact_init (contact_anchors soup)"
  by (simp add: extract_contact_info_def contact_anchors_def foldl_concat_nested)

lemma email_kept:
  "foldl contact_anchor ci as ''E-Mail'' =
     (let ms = filter (\<lambda>a. startswith (get_attr ''href'' a) ''mailto:'') as
      in if ms = [] then ci ''E-Mail''
         else Some (Some (replace ''mailto:'' [] (get_attr ''href'' (last ms)))))"
  by (induction as rule: rev_induct) (simp_all add: contact_anchor_def Let_def)

lemma phone_kept:
  "foldl contact_anchor ci as ''Telefon'' =
     (let ts = filter (\<lambda>a. \<not> startswith (get_attr ''href'' a) ''mailto:'' \<and>
                            startswith (get_attr ''href'' a) ''tel:'') as
      in if ts = [] then ci ''Telefon''
         else Some (Some (replace ''tel:'' [] (get_attr ''href'' (last ts)))))"
  by (induction as rule: rev_induct) (simp_all add: contact_anchor_def Let_def)

lemma homepage_kept:
  "foldl contact_anchor ci as ''Homepage'' =
     (let ws = filter (\<lambda>a. \<not> startswith (get_attr ''href'' a) ''mailto:'' \<and>
                            \<not> startswith (get_attr ''href'' a) ''tel:'') as
      in if ws = [] then ci ''Homepage''
         else Some (Some (get_attr ''href'' (last ws))))"
  by (induction as rule: rev_induct) (simp_all add: contact_anchor_def Let_def)

lemma other_keys_kept:
  "k \<noteq> ''E-Mail'' \<Longrightarrow> k \<noteq> ''Telefon'' \<Longrightarrow> k \<noteq> ''Homepage'' \<Longrightarrow>
   foldl contact_anchor ci as k = ci k"
  by (induction as rule: rev_induct) (simp_all add: contact_anchor_def Let_def)

lemma last_filter_const:
  assumes "x \<in> set xs" "P x" "\<And>y. y \<in> set xs \<Longrightarrow> P y \<Longrightarrow> f y = v"
  shows "filter P xs \<noteq> [] \<and> f (last (filter P xs)) = v"
proof -
  have ne: "filter P xs \<noteq> []" using assms(1,2) by (auto simp: filter_empty_conv)
  then have "last (filter P xs) \<in> set (filter P xs)" by (rule last_in_set)
  then show ?thesis using ne assms(3) by auto
qed

text \<open>
  Three anchors, one per scheme, reached in any order and any number of times: each value
  lands under the key of its scheme.
\<close>

lemma contact_by_scheme:
  assumes m: "startswith m ''mailto:''"
    and t: "\<not> startswith t ''mailto:''" "startswith t ''tel:''"
    and w: "\<not> startswith w ''mailto:''" "\<not> startswith w ''tel:''"
    and hs: "set (map (get_attr ''href'') (contact_anchors soup)) = {m, t, w}"
  shows "extract_contact_info soup =
           [''E-Mail'' \<mapsto> Some (replace ''mailto:'' [] m),
            ''Homepage'' \<mapsto> Some w,
            ''Telefon'' \<mapsto> Some (replace ''tel:'' [] t)]"
proof -
  let ?as = "contact_anchors soup"
  let ?h = "get_attr ''href''"
  have all: "?h a = m \<or> ?h a = t \<or> ?h a = w" if "a \<in> set ?as" for a
    using that hs by auto
  have "m \<in> ?h ` set ?as" "t \<in> ?h ` set ?as" "w \<in> ?h ` set ?as"
    using hs by simp_all
  then obtain am at aw where am: "am \<in> set ?as" "?h am = m" and at: "at \<in> set ?as" "?h at = t"
    and aw: "aw \<in> set ?as" "?h aw = w"
    by (auto simp: image_iff)
  have em: "filter (\<lambda>a. startswith (?h a) ''mailto:'') ?as \<noteq> [] \<and>
            ?h (last (filter (\<lambda>a. startswith (?h a) ''mailto:'') ?as)) = m"
  proof (rule last_filter_const [of am])
    show "am \<in> set ?as" by (rule am)
    show "startswith (?h am) ''mailto:''" using am m by simp
    show "?h y = m" if "y \<in> set ?as" "startswith (?h y) ''mailto:''" for y
      using all [OF that(1)] that(2) t w by auto
  qed
  have e: "extract_contact_info soup ''E-Mail'' = Some (Some (replace ''mailto:'' [] m))"
    using em by (simp add: extract_contact_info_anchors email_kept Let_def)
  have tm: "filter (\<lambda>a. \<not> startswith (?h a) ''mailto:'' \<and> startswith (?h a) ''tel:'') ?as \<noteq> [] \<and>
            ?h (last (filter (\<lambda>a. \<not> startswith (?h a) ''mailto:'' \<and> startswith (?h a) ''tel:'') ?as)) = t"
  proof (rule last_filter_const [of at])
    show "at \<in> set ?as" by (rule at)
    show "\<not> startswith (?h at) ''mailto:'' \<and> startswith (?h at) ''tel:''" using at t by simp
    show "?h y = t"
      if "y \<in> set ?as" "\<not> startswith (?h y) ''mailto:'' \<and> startswith (?h y) ''tel:''" for y
      using all [OF that(1)] that(2) m w by auto
  qed
  have p: "extract_contact_info soup ''Telefon'' = Some (Some (replace ''tel:'' [] t))"
    using tm by (simp add: extract_contact_info_anchors phone_kept Let_def)
  have wm: "filter (\<lambda>a. \<not> startswith (?h a) ''mailto:'' \<and> \<not> startswith (?h a) ''tel:'') ?as \<noteq> [] \<and>
            ?h (last (filter (\<lambda>a. \<not> startswith (?h a) ''mailto:'' \<and> \<not> startswith (?h a) ''tel:'') ?as)) = w"
  proof (rule last_filter_const [of aw])
    show "aw \<in> set ?as" by (rule aw)
    show "\<not> startswith (?h aw) ''mailto:'' \<and> \<not> startswith (?h aw) ''tel:''" using aw w by simp
    show "?h y = w"
      if "y \<in> set ?as" "\<not> startswith (?h y) ''mailto:'' \<and> \<not> startswith (?h y) ''tel:''" for y
      using all [OF that(1)] that(2) m t by auto
  qed
  have h: "extract_contact_info soup ''Homepage'' = Some (Some w)"
    using wm by (simp add: extract_contact_info_anchors homepage_kept Let_def)
  have o: "extract_contact_info soup k = None"
    if "k \<noteq> ''E-Mail''" "k \<noteq> ''Telefon''" "k \<noteq> ''Homepage''" for k
    using that by (simp add: extract_contact_info_anchors other_keys_kept contact_init_def)
  show ?thesis
  proof
    fix k
    consider "k = ''E-Mail''" | "k = ''Telefon''" | "k = ''Homepage''"
      | "k \<noteq> ''E-Mail''" "k \<noteq> ''Telefon''" "k \<noteq> ''Homepage''" by blast
    then show "extract_contact_info soup k =
            [''E-Mail'' \<mapsto> Some (replace ''mailto:'' [] m), ''Homepage'' \<mapsto> Some w,
             ''Telefon'' \<mapsto> Some (replace ''tel:'' [] t)] k"
    proof cases
      case 1 then show ?thesis using e by simp
    next
      case 2 then show ?thesis using p by simp
    next
      case 3 then show ?thesis using h by simp
    next
      case 4 then show ?thesis using o [of k] by simp
    qed
  qed
qed

lemma replace_mailto_example: "replace ''mailto:'' [] ''mailto:a@x.com'' = ''a@x.com''"
  by simp

lemma replace_tel_example: "replace ''tel:'' [] ''tel:123'' = ''123''"
  by simp

text \<open>
  Claim C2. Whenever the anchors reached in the contact boxes carry exactly the hrefs
  \<open>mailto:a@x.com\<close>, \<open>tel:123\<close> and \<open>https://example.com\<close>, in whatever order, the result
  maps E-Mail to \<open>a@x.com\<close>, Telefon to \<open>123\<close> and Homepage to \<open>https://example.com\<close>. More
  generally, with one href starting with \<open>mailto:\<close>, one starting with \<open>tel:\<close> and one
  starting with neither, each is filed under the key of its scheme, whatever the order.
\<close>

theorem contact_three_anchors_any_order:
  "(set (map (get_attr ''href'') (contact_anchors soup)) =
      {''mailto:a@x.com'', ''tel:123'', ''https://example.com''} \<longrightarrow>
    extract_contact_info soup =
      [''E-Mail'' \<mapsto> Some ''a@x.com'', ''Homepage'' \<mapsto> Some ''https://example.com'',
       ''Telefon'' \<mapsto> Some ''123'']) \<and>
   (startswith m ''mailto:'' \<and> \<not> startswith t ''mailto:'' \<and> startswith t ''tel:'' \<and>
    \<not> startswith w ''mailto:'' \<and> \<not> startswith w ''tel:'' \<and>
    set (map (get_attr ''href'') (contact_anchors soup)) = {m, t, w} \<longrightarrow>
    extract_contact_info soup =
      [''E-Mail'' \<mapsto> Some (replace ''mailto:'' [] m), ''Homepage'' \<mapsto> Some w,
       ''Telefon'' \<mapsto> Some (replace ''tel:'' [] t)])"
proof (intro conjI impI)
  assume hs: "set (map (get_attr ''href'') (contact_anchors soup)) =
      {''mailto:a@x.com'', ''tel:123'', ''https://example.com''}"
  have "extract_contact_info soup =
      [''E-Mail'' \<mapsto> Some (replace ''mailto:'' [] ''mailto:a@x.com''),
       ''Homepage'' \<mapsto> Some ''https://example.com'',
       ''Telefon'' \<mapsto> Some (replace ''tel:'' [] ''tel:123'')]"
    by (rule contact_by_scheme [OF _ _ _ _ _ hs]) (simp_all add: startswith_def)
  then show "extract_contact_info soup =
      [''E-Mail'' \<mapsto> Some ''a@x.com'', ''Homepage'' \<mapsto> Some ''https://example.com'',
       ''Telefon'' \<mapsto> Some ''123'']"
    by (simp only: replace_mailto_example replace_tel_example)
next
  assume "startswith m ''mailto:'' \<and> \<not> startswith t ''mailto:'' \<and> startswith t ''tel:'' \<and>
    \<not> startswith w ''mailto:'' \<and> \<not> startswith w ''tel:'' \<and>
    set (map (get_attr ''href'') (contact_anchors soup)) = {m, t, w}"
  then show "extract_contact_info soup =
      [''E-Mail'' \<mapsto> Some (replace ''mailto:'' [] m), ''Homepage'' \<mapsto> Some w,
       ''Telefon'' \<mapsto> Some (replace ''tel:'' [] t)]"
    using contact_by_scheme [of m t w soup] by blast
qed

lemma contact_page_anchors:
  "contact_anchors contact_page =
     [anchor ''tel:123'', anchor ''https://example.com'', anchor ''mailto:a@x.com'']"
  by (simp add: contact_anchors_def contact_page_def anchor_def find_all_class_def
      find_all_attr_def is_tag_def class_matches_def has_attr_def)

theorem contact_three_anchors_any_order_witness:
  "map (get_attr ''href'') (contact_anchors contact_page) =
     [''tel:123'', ''https://example.com'', ''mailto:a@x.com''] \<and>
   extract_contact_info contact_page =
     [''E-Mail'' \<mapsto> Some ''a@x.com'', ''Homepage'' \<mapsto> Some ''https://example.com'',
      ''Telefon'' \<mapsto> Some ''123'']"
proof -
  have hs: "map (get_attr ''href'') (contact_anchors contact_page) =
     [''tel:123'', ''https://example.com'', ''mailto:a@x.com'']"
    by (simp add: contact_page_anchors) (simp add: anchor_def get_attr_def)
  have "set [''tel:123'', ''https://example.com'', ''mailto:a@x.com''] =
      {''mailto:a@x.com'', ''tel:123'', ''https://example.com''}"
    by (simp only: list.set insert_commute)
  then have s: "set (map (get_attr ''href'') (contact_anchors contact_page)) =
      {''mailto:a@x.com'', ''tel:123'', ''https://example.com''}"
    by (simp only: hs)
  have "extract_contact_info contact_page =
     [''E-Mail'' \<mapsto> Some ''a@x.com'', ''Homepage'' \<mapsto> Some ''https://example.com'',
      ''Telefon'' \<mapsto> Some ''123'']"
    by (rule contact_three_anchors_any_order [of contact_page, THEN conjunct1, rule_format, OF s])
  with hs show ?thesis by (rule conjI)
qed

lemma contact_anchor_dom:
  "{''E-Mail'', ''Homepage'', ''Telefon''} \<subseteq> dom ci \<Longrightarrow> dom (contact_anchor ci a) = dom ci"
  by (auto simp: contact_anchor_def Let_def)

lemma contact_fold_dom:
  "{''E-Mail'', ''Homepage'', ''Telefon''} \<subseteq> dom ci \<Longrightarrow> dom (foldl contact_anchor ci as) = dom ci"
  by (induction as arbitrary: ci) (simp_all add: contact_anchor_dom)

lemma contact_init_dom: "dom contact_init = {''E-Mail'', ''Homepage'', ''Telefon''}"
  by (auto simp: contact_init_def)

lemma contact_anchors_empty:
  "(\<forall>d \<in> set (find_all_class ''div'' ''css-1x2phcg'' soup). find_all_attr ''a'' ''href'' d = []) \<Longrightarrow>
   contact_anchors soup = []"
  by (simp add: contact_anchors_def)

text \<open>
  Claim C9. The result of contact extraction always has exactly the keys E-Mail, Homepage
  and Telefon, each bound to an optional string; when no div matches, or no matching div
  has an anchor with an href below it, all three are bound to \<open>None\<close>.
\<close>

theorem contact_keys_fixed:
  "dom (extract_contact_info soup) = {''E-Mail'', ''Homepage'', ''Telefon''} \<and>
   (find_all_class ''div'' ''css-1x2phcg'' soup = [] \<longrightarrow>
      extract_contact_info soup =
        [''E-Mail'' \<mapsto> None, ''Homepage'' \<mapsto> None, ''Telefon'' \<mapsto> None]) \<and>
   ((\<forall>d \<in> set (find_all_class ''div'' ''css-1x2phcg'' soup).
        find_all_attr ''a'' ''href'' d = []) \<longrightarrow>
      extract_contact_info soup =
        [''E-Mail'' \<mapsto> None, ''Homepage'' \<mapsto> None, ''Telefon'' \<mapsto> None])"
proof (intro conjI impI)
  show "dom (extract_contact_info soup) = {''E-Mail'', ''Homepage'', ''Telefon''}"
    by (simp add: extract_contact_info_anchors contact_fold_dom contact_init_dom)
next
  assume "find_all_class ''div'' ''css-1x2phcg'' soup = []"
  then show "extract_contact_info soup =
        [''E-Mail'' \<mapsto> None, ''Homepage'' \<mapsto> None, ''Telefon'' \<mapsto> None]"
    by (simp add: extract_contact_info_def contact_init_def)
next
  assume "\<forall>d \<in> set (find_all_class ''div'' ''css-1x2phcg'' soup).
        find_all_attr ''a'' ''href'' d = []"
  then have "contact_anchors soup = []" by (rule contact_anchors_empty)
  then show "extract_contact_info soup =
        [''E-Mail'' \<mapsto> None, ''Homepage'' \<mapsto> None, ''Telefon'' \<mapsto> None]"
    by (simp add: extract_contact_info_anchors contact_init_def)
qed

theorem contact_keys_fixed_witness:
  "find_all_class ''div'' ''css-1x2phcg'' page = [] \<and>
   extract_contact_info page =
     [''E-Mail'' \<mapsto> None, ''Homepage'' \<mapsto> None, ''Telefon'' \<mapsto> None] \<and>
   find_all_class ''div'' ''css-1x2phcg'' bare_contact_page =
     [Element ''div'' [''css-1x2phcg''] [] [Element ''span'' [] [] [Text ''Kontakt'']]] \<and>
   find_all_attr ''a'' ''href''
     (Element ''div'' [''css-1x2phcg''] [] [Element ''span'' [] [] [Text ''Kontakt'']]) = [] \<and>
   extract_contact_info bare_contact_page =
     [''E-Mail'' \<mapsto> None, ''Homepage'' \<mapsto> None, ''Telefon'' \<mapsto> None] \<and>
   dom (extract_contact_info bare_contact_page) = {''E-Mail'', ''Homepage'', ''Telefon''}"
proof -
  have p: "find_all_class ''div'' ''css-1x2phcg'' page = []"
    by (simp add: page_def find_all_class_def is_tag_def class_matches_def)
  have b: "find_all_class ''div'' ''css-1x2phcg'' bare_contact_page =
     [Element ''div'' [''css-1x2phcg''] [] [Element ''span'' [] [] [Text ''Kontakt'']]]"
    by (simp add: bare_contact_page_def find_all_class_def is_tag_def class_matches_def)
  have n: "find_all_attr ''a'' ''href''
     (Element ''div'' [''css-1x2phcg''] [] [Element ''span'' [] [] [Text ''Kontakt'']]) = []"
    by (simp add: find_all_attr_def is_tag_def)
  have a: "\<forall>d \<in> set (find_all_class ''div'' ''css-1x2phcg'' bare_contact_page).
        find_all_attr ''a'' ''href'' d = []"
    by (simp only: b n list.set ball_simps)
  note t1 = contact_keys_fixed [of page]
  note t2 = contact_keys_fixed [of bare_contact_page]
  have r1: "extract_contact_info page =
     [''E-Mail'' \<mapsto> None, ''Homepage'' \<mapsto> None, ''Telefon'' \<mapsto> None]"
    by (rule t1 [THEN conjunct2, THEN conjunct1, THEN mp, OF p])
  have r2: "extract_contact_info bare_contact_page =
     [''E-Mail'' \<mapsto> None, ''Homepage'' \<mapsto> None, ''Telefon'' \<mapsto> None]"
    by (rule t2 [THEN conjunct2, THEN conjunct2, THEN mp, OF a])
  have r3: "dom (extract_contact_info bare_contact_page) = {''E-Mail'', ''Homepage'', ''Telefon''}"
    by (rule t2 [THEN conjunct1])
  show ?thesis
    by (intro conjI p r1 b n r2 r3)
qed

lemma contact_init_values:
  "contact_init ''E-Mail'' = Some None"
  "contact_init ''Telefon'' = Some None"
  "contact_init ''Homepage'' = Some None"
  by (simp_all add: contact_init_def)

text \<open>
  Claim C3, as amended. Under each key the value kept is that of the last matching anchor in
  the order in which the extractor reaches the anchors; with a single matching div that is
  the document order of its anchors, so two mail anchors \<open>a@x.com\<close> then \<open>b@x.com\<close> leave
  E-Mail at \<open>b@x.com\<close>.
\<close>

theorem contact_last_reached_wins:
  "extract_contact_info soup ''E-Mail'' =
     (let ms = filter (\<lambda>a. startswith (get_attr ''href'' a) ''mailto:'') (contact_anchors soup)
      in if ms = [] then Some None
         else Some (Some (replace ''mailto:'' [] (get_attr ''href'' (last ms))))) \<and>
   extract_contact_info soup ''Telefon'' =
     (let ts = filter (\<lambda>a. \<not> startswith (get_attr ''href'' a) ''mailto:'' \<and>
                            startswith (get_attr ''href'' a) ''tel:'') (contact_anchors soup)
      in if ts = [] then Some None
         else Some (Some (replace ''tel:'' [] (get_attr ''href'' (last ts))))) \<and>
   extract_contact_info soup ''Homepage'' =
     (let ws = filter (\<lambda>a. \<not> startswith (get_attr ''href'' a) ''mailto:'' \<and>
                            \<not> startswith (get_attr ''href'' a) ''tel:'') (contact_anchors soup)
      in if ws = [] then Some None
         else Some (Some (get_attr ''href'' (last ws)))) \<and>
   (find_all_class ''div'' ''css-1x2phcg'' soup = [d] \<longrightarrow>
      contact_anchors soup = find_all_attr ''a'' ''href'' d) \<and>
   (map (get_attr ''href'') (contact_anchors soup) = [''mailto:a@x.com'', ''mailto:b@x.com''] \<longrightarrow>
      extract_contact_info soup ''E-Mail'' = Some (Some ''b@x.com''))"
proof (intro conjI impI)
  show "extract_contact_info soup ''E-Mail'' =
     (let ms = filter (\<lambda>a. startswith (get_attr ''href'' a) ''mailto:'') (contact_anchors soup)
      in if ms = [] then Some None
         else Some (Some (replace ''mailto:'' [] (get_attr ''href'' (last ms)))))"
    unfolding extract_contact_info_anchors email_kept contact_init_values by (rule refl)
  show "extract_contact_info soup ''Telefon'' =
     (let ts = filter (\<lambda>a. \<not> startswith (get_attr ''href'' a) ''mailto:'' \<and>
                            startswith (get_attr ''href'' a) ''tel:'') (contact_anchors soup)
      in if ts = [] then Some None
         else Some (Some (replace ''tel:'' [] (get_attr ''href'' (last ts)))))"
    unfolding extract_contact_info_anchors phone_kept contact_init_values by (rule refl)
  show "extract_contact_info soup ''Homepage'' =
     (let ws = filter (\<lambda>a. \<not> startswith (get_attr ''href'' a) ''mailto:'' \<and>
                            \<not> startswith (get_attr ''href'' a) ''tel:'') (contact_anchors soup)
      in if ws = [] then Some None
         else Some (Some (get_attr ''href'' (last ws))))"
    unfolding extract_contact_info_anchors homepage_kept contact_init_values by (rule refl)
next
  assume "find_all_class ''div'' ''css-1x2phcg'' soup = [d]"
  then show "contact_anchors soup = find_all_attr ''a'' ''href'' d"
    by (simp add: contact_anchors_def)
next
  assume hs: "map (get_attr ''href'') (contact_anchors soup) = [''mailto:a@x.com'', ''mailto:b@x.com'']"
  then obtain a b where ab: "contact_anchors soup = [a, b]"
    and a: "get_attr ''href'' a = ''mailto:a@x.com''" and b: "get_attr ''href'' b = ''mailto:b@x.com''"
    by (auto simp: map_eq_Cons_conv)
  have "replace ''mailto:'' [] ''mailto:b@x.com'' = ''b@x.com''" by simp
  then show "extract_contact_info soup ''E-Mail'' = Some (Some ''b@x.com'')"
    by (simp add: extract_contact_info_anchors ab contact_anchor_def a b startswith_def)
qed


lemma two_mail_page_divs:
  "find_all_class ''div'' ''css-1x2phcg'' two_mail_page =
     [Element ''div'' [''css-1x2phcg''] [] [anchor ''mailto:a@x.com'', anchor ''mailto:b@x.com'']]"
  by (simp add: two_mail_page_def anchor_def find_all_class_def is_tag_def class_matches_def)

lemma two_mail_page_anchors:
  "contact_anchors two_mail_page = [anchor ''mailto:a@x.com'', anchor ''mailto:b@x.com'']"
  by (simp add: contact_anchors_def two_mail_page_divs)
    (simp add: anchor_def find_all_attr_def is_tag_def has_attr_def)

lemma href_anchor: "get_attr ''href'' (anchor h) = h"
  by (simp add: anchor_def get_attr_def)

theorem contact_last_reached_wins_witness:
  "find_all_class ''div'' ''css-1x2phcg'' two_mail_page =
     [Element ''div'' [''css-1x2phcg''] [] [anchor ''mailto:a@x.com'', anchor ''mailto:b@x.com'']] \<and>
   contact_anchors two_mail_page =
     find_all_attr ''a'' ''href''
       (Element ''div'' [''css-1x2phcg''] [] [anchor ''mailto:a@x.com'', anchor ''mailto:b@x.com'']) \<and>
   map (get_attr ''href'') (contact_anchors two_mail_page) =
     [''mailto:a@x.com'', ''mailto:b@x.com''] \<and>
   extract_contact_info two_mail_page ''E-Mail'' = Some (Some ''b@x.com'')"
proof -
  note t = contact_last_reached_wins [of two_mail_page
      "Element ''div'' [''css-1x2phcg''] [] [anchor ''mailto:a@x.com'', anchor ''mailto:b@x.com'']"]
  have hs: "map (get_attr ''href'') (contact_anchors two_mail_page) =
     [''mailto:a@x.com'', ''mailto:b@x.com'']"
    by (simp add: two_mail_page_anchors href_anchor)
  have one: "contact_anchors two_mail_page =
     find_all_attr ''a'' ''href''
       (Element ''div'' [''css-1x2phcg''] [] [anchor ''mailto:a@x.com'', anchor ''mailto:b@x.com''])"
    by (rule t [THEN conjunct2, THEN conjunct2, THEN conjunct2, THEN conjunct1, THEN mp,
          OF two_mail_page_divs])
  have r: "extract_contact_info two_mail_page ''E-Mail'' = Some (Some ''b@x.com'')"
    by (rule t [THEN conjunct2, THEN conjunct2, THEN conjunct2, THEN conjunct2, THEN mp, OF hs])
  show ?thesis
    by (intro conjI two_mail_page_divs one hs r)
qed

text \<open>
  Claim C3 as stated fails when one contact box lies inside another: the outer box holds
  the mail anchors \<open>a@x.com\<close> then \<open>b@x.com\<close> in document order, but the inner box is
  walked after the outer one, so its anchor \<open>a@x.com\<close> is written last.
\<close>

theorem contact_nested_boxes_counterexample:
  "find_all_class ''div'' ''css-1x2phcg'' nested_page =
     [nested_box, Element ''div'' [''css-1x2phcg''] [] [anchor ''mailto:a@x.com'']] \<and>
   map (get_attr ''href'') (find_all_attr ''a'' ''href'' nested_box) =
     [''mailto:a@x.com'', ''mailto:b@x.com''] \<and>
   map (get_attr ''href'') (find_all_attr ''a'' ''href'' nested_page) =
     [''mailto:a@x.com'', ''mailto:b@x.com''] \<and>
   extract_contact_info nested_page ''E-Mail'' = Some (Some ''a@x.com'') \<and>
   extract_contact_info nested_page ''E-Mail'' \<noteq> Some (Some ''b@x.com'')"
proof -
  have d: "find_all_class ''div'' ''css-1x2phcg'' nested_page =
     [nested_box, Element ''div'' [''css-1x2phcg''] [] [anchor ''mailto:a@x.com'']]"
    by (simp add: nested_page_def nested_box_def anchor_def find_all_class_def is_tag_def
        class_matches_def)
  have o: "find_all_attr ''a'' ''href'' nested_box = [anchor ''mailto:a@x.com'', anchor ''mailto:b@x.com'']"
    by (simp add: nested_box_def anchor_def find_all_attr_def is_tag_def has_attr_def)
  have p: "find_all_attr ''a'' ''href'' nested_page = [anchor ''mailto:a@x.com'', anchor ''mailto:b@x.com'']"
    by (simp add: nested_page_def nested_box_def anchor_def find_all_attr_def is_tag_def has_attr_def)
  have i: "find_all_attr ''a'' ''href'' (Element ''div'' [''css-1x2phcg''] [] [anchor ''mailto:a@x.com''])
      = [anchor ''mailto:a@x.com'']"
    by (simp add: anchor_def find_all_attr_def is_tag_def has_attr_def)
  have as: "contact_anchors nested_page =
      [anchor ''mailto:a@x.com'', anchor ''mailto:b@x.com'', anchor ''mailto:a@x.com'']"
    by (simp add: contact_anchors_def d o i)
  have ra: "replace ''mailto:'' [] ''mailto:a@x.com'' = ''a@x.com''" by simp
  have rb: "replace ''mailto:'' [] ''mailto:b@x.com'' = ''b@x.com''" by simp
  have r: "extract_contact_info nested_page ''E-Mail'' = Some (Some ''a@x.com'')"
    by (simp add: extract_contact_info_anchors as contact_anchor_def href_anchor startswith_def ra rb)
  have n: "extract_contact_info nested_page ''E-Mail'' \<noteq> Some (Some ''b@x.com'')"
    by (simp add: r)
  show ?thesis
    by (intro conjI d r n) (simp_all add: o p href_anchor)
qed

section \<open>Scalar and sequence fields\<close>

lemma step_loaded:
  "load u = Inr soup \<Longrightarrow>
   step load st u = st\<lparr>printed := printed st @ [Buttons u (extract_overview_buttons soup)]\<rparr>"
  by (simp add: step_def)

lemma length_map_filter:
  "length (List.map_filter f xs) = length xs - length (filter (\<lambda>x. f x = None) xs)"
proof -
  have "length (filter (\<lambda>x. f x \<noteq> None) xs) + length (filter (\<lambda>x. f x = None) xs) = length xs"
    using sum_length_filter_compl [of "\<lambda>x. f x \<noteq> None" xs] by simp
  then show ?thesis by (simp add: map_filter_def)
qed

lemma rating_factor_None:
  "(rating_factor item = None) =
     (find_class ''p'' ''MuiTypography-root MuiTypography-body1 css-1k55edk'' item = None \<or>
      find_class ''p'' ''MuiTypography-root MuiTypography-body1 css-1y0caop'' item = None)"
  by (simp add: rating_factor_def split: option.splits)

lemma rating_factor_Some:
  "rating_factor item \<noteq> None \<Longrightarrow>
   the (rating_factor item) =
     text_of (the (find_class ''p'' ''MuiTypography-root MuiTypography-body1 css-1k55edk'' item))
     @ '': '' @
     text_of (the (find_class ''p'' ''MuiTypography-root MuiTypography-body1 css-1y0caop'' item))"
  by (auto simp: rating_factor_def split: option.splits)

lemma image_url_None:
  "(image_url d = None) =
     (case find_tag ''img'' d of None \<Rightarrow> True | Some img \<Rightarrow> \<not> has_attr ''src'' img)"
  by (simp add: image_url_def split: option.splits)

lemma image_url_Some:
  "image_url d \<noteq> None \<Longrightarrow> the (image_url d) = get_attr ''src'' (the (find_tag ''img'' d))"
  by (auto simp: image_url_def split: option.splits if_splits)

lemma map_filter_as_comprehension:
  assumes "\<And>x. f x \<noteq> None \<Longrightarrow> the (f x) = g x"
  shows "List.map_filter f xs = map g (filter (\<lambda>x. f x \<noteq> None) xs)"
  using assms by (simp add: map_filter_def)

text \<open>
  Claim C7. With \<open>N\<close> elements matched by the selector of the rating factors (of the image
  URLs), of which \<open>M\<close> lack the label or the value paragraph (have no \<open>img\<close> below them,
  or a first \<open>img\<close> without \<open>src\<close>), the extractor returns \<open>N - M\<close> entries: the values of
  the well-formed elements, in document order. The extractors return a list in every case
  and have no access to the log, and the loop logs nothing for a document it could load.
\<close>

theorem sequence_fields_skip_malformed:
  "length (extract_rating_factors soup) =
     length (find_all_class ''div'' ''MuiStack-root css-95g4uk'' soup) -
     length (filter
       (\<lambda>item. find_class ''p'' ''MuiTypography-root MuiTypography-body1 css-1k55edk'' item = None \<or>
                find_class ''p'' ''MuiTypography-root MuiTypography-body1 css-1y0caop'' item = None)
       (find_all_class ''div'' ''MuiStack-root css-95g4uk'' soup)) \<and>
   extract_rating_factors soup =
     map (\<lambda>item.
            text_of (the (find_class ''p'' ''MuiTypography-root MuiTypography-body1 css-1k55edk'' item))
            @ '': '' @
            text_of (the (find_class ''p'' ''MuiTypography-root MuiTypography-body1 css-1y0caop'' item)))
       (filter
         (\<lambda>item. find_class ''p'' ''MuiTypography-root MuiTypography-body1 css-1k55edk'' item \<noteq> None \<and>
                  find_class ''p'' ''MuiTypography-root MuiTypography-body1 css-1y0caop'' item \<noteq> None)
         (find_all_class ''div'' ''MuiStack-root css-95g4uk'' soup)) \<and>
   length (extract_image_urls soup) =
     length (find_all_class ''div'' ''MuiBox-root css-1fivxf'' soup) -
     length (filter
       (\<lambda>d. case find_tag ''img'' d of None \<Rightarrow> True | Some img \<Rightarrow> \<not> has_attr ''src'' img)
       (find_all_class ''div'' ''MuiBox-root css-1fivxf'' soup)) \<and>
   extract_image_urls soup =
     map (\<lambda>d. get_attr ''src'' (the (find_tag ''img'' d)))
       (filter
         (\<lambda>d. case find_tag ''img'' d of None \<Rightarrow> False | Some img \<Rightarrow> has_attr ''src'' img)
         (find_all_class ''div'' ''MuiBox-root css-1fivxf'' soup)) \<and>
   (load u = Inr soup \<longrightarrow> logged (step load st u) = logged st)"
proof (intro conjI impI)
  show "length (extract_rating_factors soup) =
     length (find_all_class ''div'' ''MuiStack-root css-95g4uk'' soup) -
     length (filter
       (\<lambda>item. find_class ''p'' ''MuiTypography-root MuiTypography-body1 css-1k55edk'' item = None \<or>
                find_class ''p'' ''MuiTypography-root MuiTypography-body1 css-1y0caop'' item = None)
       (find_all_class ''div'' ''MuiStack-root css-95g4uk'' soup))"
    by (simp add: extract_rating_factors_def length_map_filter rating_factor_None)
next
  have w: "(rating_factor item \<noteq> None) =
     (find_class ''p'' ''MuiTypography-root MuiTypography-body1 css-1k55edk'' item \<noteq> None \<and>
      find_class ''p'' ''MuiTypography-root MuiTypography-body1 css-1y0caop'' item \<noteq> None)" for item
    by (simp add: rating_factor_None)
  have "List.map_filter rating_factor xs =
     map (\<lambda>item.
            text_of (the (find_class ''p'' ''MuiTypography-root MuiTypography-body1 css-1k55edk'' item))
            @ '': '' @
            text_of (the (find_class ''p'' ''MuiTypography-root MuiTypography-body1 css-1y0caop'' item)))
       (filter (\<lambda>item. rating_factor item \<noteq> None) xs)" for xs
    by (rule map_filter_as_comprehension) (rule rating_factor_Some)
  note c = this
  show "extract_rating_factors soup =
     map (\<lambda>item.
            text_of (the (find_class ''p'' ''MuiTypography-root MuiTypography-body1 css-1k55edk'' item))
            @ '': '' @
            text_of (the (find_class ''p'' ''MuiTypography-root MuiTypography-body1 css-1y0caop'' item)))
       (filter
         (\<lambda>item. find_class ''p'' ''MuiTypography-root MuiTypography-body1 css-1k55edk'' item \<noteq> None \<and>
                  find_class ''p'' ''MuiTypography-root MuiTypography-body1 css-1y0caop'' item \<noteq> None)
         (find_all_class ''div'' ''MuiStack-root css-95g4uk'' soup))"
    unfolding extract_rating_factors_def Let_def c w by (rule refl)
next
  show "length (extract_image_urls soup) =
     length (find_all_class ''div'' ''MuiBox-root css-1fivxf'' soup) -
     length (filter
       (\<lambda>d. case find_tag ''img'' d of None \<Rightarrow> True | Some img \<Rightarrow> \<not> has_attr ''src'' img)
       (find_all_class ''div'' ''MuiBox-root css-1fivxf'' soup))"
    by (simp add: extract_image_urls_def length_map_filter image_url_None)
next
  have w: "(image_url d \<noteq> None) =
     (case find_tag ''img'' d of None \<Rightarrow> False | Some img \<Rightarrow> has_attr ''src'' img)" for d
    by (simp add: image_url_def split: option.splits)
  have "List.map_filter image_url xs =
     map (\<lambda>d. get_attr ''src'' (the (find_tag ''img'' d))) (filter (\<lambda>d. image_url d \<noteq> None) xs)" for xs
    by (rule map_filter_as_comprehension) (rule image_url_Some)
  note c = this
  show "extract_image_urls soup =
     map (\<lambda>d. get_attr ''src'' (the (find_tag ''img'' d)))
       (filter
         (\<lambda>d. case find_tag ''img'' d of None \<Rightarrow> False | Some img \<Rightarrow> has_attr ''src'' img)
         (find_all_class ''div'' ''MuiBox-root css-1fivxf'' soup))"
    unfolding extract_image_urls_def Let_def c w by (rule refl)
next
  assume "load u = Inr soup"
  then show "logged (step load st u) = logged st"
    by (simp add: step_loaded)
qed

lemma sequence_page_items:
  "find_all_class ''div'' ''MuiStack-root css-95g4uk'' sequence_page =
     [Element ''div'' [''MuiStack-root'', ''css-95g4uk''] []
        [para ''css-1k55edk'' ''Sauberkeit'', para ''css-1y0caop'' ''4.9''],
      Element ''div'' [''MuiStack-root'', ''css-95g4uk''] [] [para ''css-1k55edk'' ''Lage''],
      Element ''div'' [''MuiStack-root'', ''css-95g4uk''] []
        [para ''css-1k55edk'' ''Service'', para ''css-1y0caop'' ''4.7'']]"
  by (simp add: sequence_page_def para_def find_all_class_def is_tag_def class_matches_def)

lemma sequence_page_pictures:
  "find_all_class ''div'' ''MuiBox-root css-1fivxf'' sequence_page =
     [Element ''div'' [''MuiBox-root'', ''css-1fivxf''] [] [Element ''img'' [] [(''src'', ''a.jpg'')] []],
      Element ''div'' [''MuiBox-root'', ''css-1fivxf''] [] [Element ''img'' [] [(''alt'', ''x'')] []],
      Element ''div'' [''MuiBox-root'', ''css-1fivxf''] [] [Element ''img'' [] [(''src'', ''c.jpg'')] []]]"
  by (simp add: sequence_page_def para_def find_all_class_def is_tag_def class_matches_def)

lemma sequence_page_rating_factors:
  "rating_factor (Element ''div'' [''MuiStack-root'', ''css-95g4uk''] []
        [para ''css-1k55edk'' ''Sauberkeit'', para ''css-1y0caop'' ''4.9'']) = Some ''Sauberkeit: 4.9''"
  "rating_factor (Element ''div'' [''MuiStack-root'', ''css-95g4uk''] []
        [para ''css-1k55edk'' ''Lage'']) = None"
  "rating_factor (Element ''div'' [''MuiStack-root'', ''css-95g4uk''] []
        [para ''css-1k55edk'' ''Service'', para ''css-1y0caop'' ''4.7'']) = Some ''Service: 4.7''"
  by (simp_all add: rating_factor_def para_def find_class_def find_all_class_def is_tag_def
      class_matches_def)

lemma sequence_page_image_urls:
  "image_url (Element ''div'' [''MuiBox-root'', ''css-1fivxf''] []
        [Element ''img'' [] [(''src'', ''a.jpg'')] []]) = Some ''a.jpg''"
  "image_url (Element ''div'' [''MuiBox-root'', ''css-1fivxf''] []
        [Element ''img'' [] [(''alt'', ''x'')] []]) = None"
  "image_url (Element ''div'' [''MuiBox-root'', ''css-1fivxf''] []
        [Element ''img'' [] [(''src'', ''c.jpg'')] []]) = Some ''c.jpg''"
  by (simp_all add: image_url_def find_tag_def find_all_tag_def is_tag_def has_attr_def
      get_attr_def)

theorem sequence_fields_skip_malformed_witness:
  "length (find_all_class ''div'' ''MuiStack-root css-95g4uk'' sequence_page) = 3 \<and>
   length (extract_rating_factors sequence_page) = 3 - 1 \<and>
   extract_rating_factors sequence_page = [''Sauberkeit: 4.9'', ''Service: 4.7''] \<and>
   length (find_all_class ''div'' ''MuiBox-root css-1fivxf'' sequence_page) = 3 \<and>
   length (extract_image_urls sequence_page) = 3 - 1 \<and>
   extract_image_urls sequence_page = [''a.jpg'', ''c.jpg''] \<and>
   logged (step (\<lambda>u. Inr sequence_page) start ''https://www.eversports.de/s/nordpole'') = []"
proof -
  note t = sequence_fields_skip_malformed [of sequence_page "\<lambda>u. Inr sequence_page"
      "''https://www.eversports.de/s/nordpole''" start]
  have n1: "length (find_all_class ''div'' ''MuiStack-root css-95g4uk'' sequence_page) = 3"
    by (simp add: sequence_page_items)
  have n2: "length (find_all_class ''div'' ''MuiBox-root css-1fivxf'' sequence_page) = 3"
    by (simp add: sequence_page_pictures)
  have l1: "length (extract_rating_factors sequence_page) = 3 - 1"
    using t [THEN conjunct1]
    unfolding rating_factor_None [symmetric] sequence_page_items
    by (simp add: sequence_page_rating_factors)
  have v1: "extract_rating_factors sequence_page = [''Sauberkeit: 4.9'', ''Service: 4.7'']"
    by (simp add: extract_rating_factors_def sequence_page_items map_filter_simps
        sequence_page_rating_factors)
  have l2: "length (extract_image_urls sequence_page) = 3 - 1"
    using t [THEN conjunct2, THEN conjunct2, THEN conjunct1]
    unfolding image_url_None [symmetric] sequence_page_pictures
    by (simp add: sequence_page_image_urls)
  have v2: "extract_image_urls sequence_page = [''a.jpg'', ''c.jpg'']"
    by (simp add: extract_image_urls_def sequence_page_pictures map_filter_simps
        sequence_page_image_urls)
  have "logged (step (\<lambda>u. Inr sequence_page) start ''https://www.eversports.de/s/nordpole'') =
      logged start"
    by (rule t [THEN conjunct2, THEN conjunct2, THEN conjunct2, THEN conjunct2, THEN mp]) (rule refl)
  then have g: "logged (step (\<lambda>u. Inr sequence_page) start ''https://www.eversports.de/s/nordpole'') = []"
    by (simp add: start_def)
  show ?thesis
    by (intro conjI n1 l1 v1 n2 l2 v2 g)
qed

text \<open>
  Claim C8. When the selector of the name, of the description or of the sale text matches
  no element, the extractor returns \<open>None\<close>; none of the three can raise, none has access
  to the log, and the loop logs nothing for a document it could load.
\<close>

theorem scalar_fields_absent:
  "(find_all_class ''h1'' ''MuiTypography-root MuiTypography-h1 css-qinhw0'' soup = [] \<longrightarrow>
      extract_pole_studio_name soup = None) \<and>
   (find_all_class ''div'' ''MuiBox-root css-0'' soup = [] \<longrightarrow>
      extract_description soup = None) \<and>
   (find_all_class ''p'' ''MuiTypography-root MuiTypography-body1 css-153qxhx'' soup = [] \<longrightarrow>
      extract_sale soup = None) \<and>
   (load u = Inr soup \<longrightarrow> logged (step load st u) = logged st)"
  by (simp add: extract_pole_studio_name_def extract_description_def extract_sale_def
      find_class_def step_loaded)

theorem scalar_fields_absent_witness:
  "find_all_class ''h1'' ''MuiTypography-root MuiTypography-h1 css-qinhw0'' page = [] \<and>
   extract_pole_studio_name page = None \<and>
   find_all_class ''div'' ''MuiBox-root css-0'' page = [] \<and>
   extract_description page = None \<and>
   find_all_class ''p'' ''MuiTypography-root MuiTypography-body1 css-153qxhx'' page = [] \<and>
   extract_sale page = None \<and>
   logged (step (\<lambda>u. Inr page) start ''https://www.eversports.de/s/poda-studio'') = []"
proof -
  note t = scalar_fields_absent [of page "\<lambda>u. Inr page"
      "''https://www.eversports.de/s/poda-studio''" start]
  have a: "find_all_class ''h1'' ''MuiTypography-root MuiTypography-h1 css-qinhw0'' page = []"
    by (simp add: page_def find_all_class_def is_tag_def)
  have b: "find_all_class ''div'' ''MuiBox-root css-0'' page = []"
    by (simp add: page_def find_all_class_def is_tag_def class_matches_def)
  have c: "find_all_class ''p'' ''MuiTypography-root MuiTypography-body1 css-153qxhx'' page = []"
    by (simp add: page_def find_all_class_def is_tag_def)
  have ra: "extract_pole_studio_name page = None"
    by (rule t [THEN conjunct1, THEN mp, OF a])
  have rb: "extract_description page = None"
    by (rule t [THEN conjunct2, THEN conjunct1, THEN mp, OF b])
  have rc: "extract_sale page = None"
    by (rule t [THEN conjunct2, THEN conjunct2, THEN conjunct1, THEN mp, OF c])
  have "logged (step (\<lambda>u. Inr page) start ''https://www.eversports.de/s/poda-studio'') = logged start"
    by (rule t [THEN conjunct2, THEN conjunct2, THEN conjunct2, THEN mp]) (rule refl)
  then have g: "logged (step (\<lambda>u. Inr page) start ''https://www.eversports.de/s/poda-studio'') = []"
    by (simp add: start_def)
  show ?thesis
    by (intro conjI a ra b rb c rc g)
qed

text \<open>
  Claim C10. Each extractor of a sequence field returns a list, and the empty list when
  its selector matches nothing; its result type has no \<open>None\<close>.
\<close>

theorem sequence_fields_empty:
  "(find_all_class ''div'' ''MuiStack-root css-sgccrm'' soup = [] \<longrightarrow>
      extract_overview_buttons soup = []) \<and>
   (find_all_class ''div'' ''MuiStack-root css-95g4uk'' soup = [] \<longrightarrow>
      extract_rating_factors soup = []) \<and>
   (find_all_class ''p'' ''MuiTypography-root MuiTypography-body1 css-6ik050'' soup = [] \<longrightarrow>
      extract_art soup = []) \<and>
   (find_all_class ''div'' ''MuiBox-root css-1fivxf'' soup = [] \<longrightarrow>
      extract_image_urls soup = [])"
  by (simp add: extract_overview_buttons_def extract_rating_factors_def extract_art_def
      extract_image_urls_def map_filter_simps)

theorem sequence_fields_empty_witness:
  "find_all_class ''div'' ''MuiStack-root css-sgccrm'' empty_page = [] \<and>
   extract_overview_buttons empty_page = [] \<and>
   find_all_class ''div'' ''MuiStack-root css-95g4uk'' empty_page = [] \<and>
   extract_rating_factors empty_page = [] \<and>
   find_all_class ''p'' ''MuiTypography-root MuiTypography-body1 css-6ik050'' empty_page = [] \<and>
   extract_art empty_page = [] \<and>
   find_all_class ''div'' ''MuiBox-root css-1fivxf'' empty_page = [] \<and>
   extract_image_urls empty_page = []"
proof -
  note t = sequence_fields_empty [of empty_page]
  have e: "find_all_class tg c empty_page = []" for tg c
    by (simp add: empty_page_def find_all_class_def)
  have ra: "extract_overview_buttons empty_page = []"
    by (rule t [THEN conjunct1, THEN mp, OF e])
  have rb: "extract_rating_factors empty_page = []"
    by (rule t [THEN conjunct2, THEN conjunct1, THEN mp, OF e])
  have rc: "extract_art empty_page = []"
    by (rule t [THEN conjunct2, THEN conjunct2, THEN conjunct1, THEN mp, OF e])
  have rd: "extract_image_urls empty_page = []"
    by (rule t [THEN conjunct2, THEN conjunct2, THEN conjunct2, THEN mp, OF e])
  show ?thesis
    by (intro conjI e ra rb rc rd)
qed

section \<open>Rating and address\<close>

lemma split_unfold:
  "split c s =
     takeWhile (\<lambda>x. x \<noteq> c) s #
     (if c \<in> set s then split c (tl (dropWhile (\<lambda>x. x \<noteq> c) s)) else [])"
  by (induction s) (auto split: list.splits)

lemma split_not_Nil: "split c s \<noteq> []"
  by (subst split_unfold) simp

lemma length_split_one: "(1 < length (split c s)) = (c \<in> set s)"
  by (subst split_unfold) (simp add: split_not_Nil)

lemma split_first: "split c s ! 0 = takeWhile (\<lambda>x. x \<noteq> c) s"
  by (subst split_unfold) simp

lemma split_second:
  "c \<in> set s \<Longrightarrow>
   split c s ! 1 = takeWhile (\<lambda>x. x \<noteq> c) (tl (dropWhile (\<lambda>x. x \<noteq> c) s))"
  by (subst split_unfold) (simp add: split_first [simplified])

lemma replace_char: "replace [c] [] s = filter (\<lambda>x. x \<noteq> c) s"
  by (induction s) auto

lemma extract_rating_found:
  assumes "find_class ''p'' ''MuiTypography-root MuiTypography-body1 css-2g7rhg'' soup = Some e"
  shows "extract_rating soup =
     (if CHR ''('' \<in> set (text_of e)
      then Inr (Some (strip (takeWhile (\<lambda>c. c \<noteq> CHR ''('') (text_of e))),
                Some (strip (filter (\<lambda>c. c \<noteq> CHR '')'')
                  (takeWhile (\<lambda>c. c \<noteq> CHR ''('')
                     (tl (dropWhile (\<lambda>c. c \<noteq> CHR ''('') (text_of e)))))))
      else Inl IndexError)"
proof (cases "CHR ''('' \<in> set (text_of e)")
  case True
  then have "1 < length (split CHR ''('' (text_of e))" by (simp only: length_split_one)
  then show ?thesis
    using True assms split_first [of "CHR ''(''" "text_of e"] split_second [OF True]
    by (simp add: extract_rating_def index_def and_then_def replace_char Let_def split_not_Nil)
next
  case False
  then have "\<not> 1 < length (split CHR ''('' (text_of e))" by (simp only: length_split_one not_False_eq_True)
  then show ?thesis
    using False assms by (simp add: extract_rating_def index_def and_then_def split_not_Nil Let_def)
qed

lemma extract_address_found:
  assumes "find_class ''p'' ''MuiTypography-root MuiTypography-body1 css-1619old'' soup = Some e"
  shows "extract_address soup =
     (let segs = split CHR '','' (text_of e);
          toks = split CHR '' '' (segs ! 1)
      in if 1 < length segs \<and> 2 < length toks
         then Inr (Some segs, Some (toks ! 2), Some (toks ! 1), Some (segs ! 0))
         else Inl IndexError)"
  using assms by (simp add: extract_address_def index_def and_then_def Let_def split_not_Nil)


lemma one_paren_rest:
  "length (filter (\<lambda>x. x = c) s) = Suc 0 \<Longrightarrow>
   c \<in> set s \<and>
   takeWhile (\<lambda>x. x \<noteq> c) (tl (dropWhile (\<lambda>x. x \<noteq> c) s)) = tl (dropWhile (\<lambda>x. x \<noteq> c) s)"
proof (induction s)
  case Nil
  then show ?case by simp
next
  case (Cons x s)
  show ?case
  proof (cases "x = c")
    case True
    with Cons.prems have "filter (\<lambda>x. x = c) s = []" by simp
    then have "\<forall>y \<in> set s. y \<noteq> c" by (simp add: filter_empty_conv)
    then have "takeWhile (\<lambda>x. x \<noteq> c) s = s" by (simp add: takeWhile_eq_all_conv)
    with True show ?thesis by simp
  next
    case False
    with Cons.prems have "length (filter (\<lambda>x. x = c) s) = Suc 0" by simp
    then have ih: "c \<in> set s \<and>
      takeWhile (\<lambda>x. x \<noteq> c) (tl (dropWhile (\<lambda>x. x \<noteq> c) s)) = tl (dropWhile (\<lambda>x. x \<noteq> c) s)"
      by (rule Cons.IH)
    have d: "dropWhile (\<lambda>x. x \<noteq> c) (x # s) = dropWhile (\<lambda>x. x \<noteq> c) s"
      using False by simp
    have m: "c \<in> set (x # s)"
      using ih [THEN conjunct1] by simp
    show ?thesis
      unfolding d by (rule conjI) (rule m, rule ih [THEN conjunct2])
  qed
qed

lemma find_rating_page:
  "find_class ''p'' ''MuiTypography-root MuiTypography-body1 css-2g7rhg'' (rating_page t) =
     Some (para ''css-2g7rhg'' t)"
  by (simp add: rating_page_def para_def find_class_def find_all_class_def is_tag_def
      class_matches_def)

lemma find_address_page:
  "find_class ''p'' ''MuiTypography-root MuiTypography-body1 css-1619old'' (address_page t) =
     Some (para ''css-1619old'' t)"
  by (simp add: address_page_def para_def find_class_def find_all_class_def is_tag_def
      class_matches_def)

lemma text_of_para: "text_of (para c t) = t"
  by (simp add: para_def)

text \<open>
  Claim C4, as amended. The text of the rating element is split at every opening
  parenthesis; the first piece stripped is the score and the second piece, with every
  closing parenthesis removed and stripped, is the count, so \<open>4.8 (123)\<close> gives
  \<open>(4.8, 123)\<close>. A text with exactly one opening parenthesis gives what a split at the first
  one gives. A text with no opening parenthesis raises \<open>IndexError\<close>; the pair of
  \<open>None\<close> is returned only when no rating element is found.
\<close>

theorem rating_split_every_paren:
  "(find_class ''p'' ''MuiTypography-root MuiTypography-body1 css-2g7rhg'' soup = None \<longrightarrow>
      extract_rating soup = Inr (None, None)) \<and>
   (find_class ''p'' ''MuiTypography-root MuiTypography-body1 css-2g7rhg'' soup = Some e \<longrightarrow>
      extract_rating soup =
        (if CHR ''('' \<in> set (text_of e)
         then Inr (Some (strip (takeWhile (\<lambda>c. c \<noteq> CHR ''('') (text_of e))),
                   Some (strip (filter (\<lambda>c. c \<noteq> CHR '')'')
                     (takeWhile (\<lambda>c. c \<noteq> CHR ''('')
                        (tl (dropWhile (\<lambda>c. c \<noteq> CHR ''('') (text_of e)))))))
         else Inl IndexError)) \<and>
   (find_class ''p'' ''MuiTypography-root MuiTypography-body1 css-2g7rhg'' soup = Some e \<and>
    text_of e = ''4.8 (123)'' \<longrightarrow>
      extract_rating soup = Inr (Some ''4.8'', Some ''123'')) \<and>
   (find_class ''p'' ''MuiTypography-root MuiTypography-body1 css-2g7rhg'' soup = Some e \<and>
    length (filter (\<lambda>c. c = CHR ''('') (text_of e)) = Suc 0 \<longrightarrow>
      extract_rating soup = specified_extract_rating soup) \<and>
   (find_class ''p'' ''MuiTypography-root MuiTypography-body1 css-2g7rhg'' soup = Some e \<and>
    CHR ''('' \<notin> set (text_of e) \<longrightarrow>
      extract_rating soup = Inl IndexError)"
proof (intro conjI impI)
  assume "find_class ''p'' ''MuiTypography-root MuiTypography-body1 css-2g7rhg'' soup = None"
  then show "extract_rating soup = Inr (None, None)"
    by (simp add: extract_rating_def)
next
  assume "find_class ''p'' ''MuiTypography-root MuiTypography-body1 css-2g7rhg'' soup = Some e"
  then show "extract_rating soup =
        (if CHR ''('' \<in> set (text_of e)
         then Inr (Some (strip (takeWhile (\<lambda>c. c \<noteq> CHR ''('') (text_of e))),
                   Some (strip (filter (\<lambda>c. c \<noteq> CHR '')'')
                     (takeWhile (\<lambda>c. c \<noteq> CHR ''('')
                        (tl (dropWhile (\<lambda>c. c \<noteq> CHR ''('') (text_of e)))))))
         else Inl IndexError)"
    by (rule extract_rating_found)
next
  assume a: "find_class ''p'' ''MuiTypography-root MuiTypography-body1 css-2g7rhg'' soup = Some e \<and>
    text_of e = ''4.8 (123)''"
  then have t: "text_of e = ''4.8 (123)''" by (rule conjunct2)
  show "extract_rating soup = Inr (Some ''4.8'', Some ''123'')"
    unfolding extract_rating_found [OF a [THEN conjunct1]] t
    by (simp add: strip_def is_space_def)
next
  assume a: "find_class ''p'' ''MuiTypography-root MuiTypography-body1 css-2g7rhg'' soup = Some e \<and>
    length (filter (\<lambda>c. c = CHR ''('') (text_of e)) = Suc 0"
  note r = one_paren_rest [OF a [THEN conjunct2]]
  note m = r [THEN conjunct1] and tw = r [THEN conjunct2]
  show "extract_rating soup = specified_extract_rating soup"
    unfolding extract_rating_found [OF a [THEN conjunct1]] specified_extract_rating_def
      rating_as_specified_def a [THEN conjunct1] tw
    by (simp only: m if_True option.case prod.case)
next
  assume a: "find_class ''p'' ''MuiTypography-root MuiTypography-body1 css-2g7rhg'' soup = Some e \<and>
    CHR ''('' \<notin> set (text_of e)"
  show "extract_rating soup = Inl IndexError"
    unfolding extract_rating_found [OF a [THEN conjunct1]]
    by (simp only: a [THEN conjunct2, THEN eq_False [THEN iffD2]] if_False)
qed

theorem rating_split_every_paren_witness:
  "find_class ''p'' ''MuiTypography-root MuiTypography-body1 css-2g7rhg'' empty_page = None \<and>
   extract_rating empty_page = Inr (None, None) \<and>
   find_class ''p'' ''MuiTypography-root MuiTypography-body1 css-2g7rhg'' (rating_page ''4.8 (123)'') =
     Some (para ''css-2g7rhg'' ''4.8 (123)'') \<and>
   text_of (para ''css-2g7rhg'' ''4.8 (123)'') = ''4.8 (123)'' \<and>
   extract_rating (rating_page ''4.8 (123)'') = Inr (Some ''4.8'', Some ''123'') \<and>
   extract_rating (rating_page ''4.8 (123)'') = specified_extract_rating (rating_page ''4.8 (123)'') \<and>
   extract_rating (rating_page ''4.8'') = Inl IndexError"
proof -
  note t0 = rating_split_every_paren [of empty_page]
  note t1 = rating_split_every_paren [of "rating_page ''4.8 (123)''" "para ''css-2g7rhg'' ''4.8 (123)''"]
  note t2 = rating_split_every_paren [of "rating_page ''4.8''" "para ''css-2g7rhg'' ''4.8''"]
  have n: "find_class ''p'' ''MuiTypography-root MuiTypography-body1 css-2g7rhg'' empty_page = None"
    by (simp add: empty_page_def find_class_def find_all_class_def)
  have r0: "extract_rating empty_page = Inr (None, None)"
    by (rule t0 [THEN conjunct1, THEN mp, OF n])
  have r1: "extract_rating (rating_page ''4.8 (123)'') = Inr (Some ''4.8'', Some ''123'')"
    by (rule t1 [THEN conjunct2, THEN conjunct2, THEN conjunct1, THEN mp])
      (simp add: find_rating_page text_of_para)
  have r2: "extract_rating (rating_page ''4.8 (123)'') =
      specified_extract_rating (rating_page ''4.8 (123)'')"
    by (rule t1 [THEN conjunct2, THEN conjunct2, THEN conjunct2, THEN conjunct1, THEN mp])
      (simp add: find_rating_page text_of_para)
  have r3: "extract_rating (rating_page ''4.8'') = Inl IndexError"
    by (rule t2 [THEN conjunct2, THEN conjunct2, THEN conjunct2, THEN conjunct2, THEN mp])
      (simp add: find_rating_page text_of_para)
  show ?thesis
    by (intro conjI n r0 find_rating_page text_of_para r1 r2 r3)
qed

text \<open>
  Claim C4 as stated fails in two places. For the rating text \<open>4.8\<close> the extractor raises
  \<open>IndexError\<close>, where the claim has the rating absent; for \<open>4.8 (123) (x)\<close> the count is
  \<open>123\<close>, the piece up to the second opening parenthesis, where a split at the first one
  gives \<open>123 (x\<close>.
\<close>

theorem rating_without_paren_counterexample:
  "extract_rating (rating_page ''4.8'') = Inl IndexError \<and>
   specified_extract_rating (rating_page ''4.8'') = Inr (None, None) \<and>
   extract_rating (rating_page ''4.8 (123) (x)'') = Inr (Some ''4.8'', Some ''123'') \<and>
   specified_extract_rating (rating_page ''4.8 (123) (x)'') = Inr (Some ''4.8'', Some ''123 (x'')"
proof (intro conjI)
  show "extract_rating (rating_page ''4.8'') = Inl IndexError"
    unfolding extract_rating_found [OF find_rating_page] text_of_para by simp
  show "specified_extract_rating (rating_page ''4.8'') = Inr (None, None)"
    by (simp add: specified_extract_rating_def find_rating_page text_of_para rating_as_specified_def)
  show "extract_rating (rating_page ''4.8 (123) (x)'') = Inr (Some ''4.8'', Some ''123'')"
    unfolding extract_rating_found [OF find_rating_page] text_of_para
    by (simp add: strip_def is_space_def)
  show "specified_extract_rating (rating_page ''4.8 (123) (x)'') =
      Inr (Some ''4.8'', Some ''123 (x'')"
    by (simp add: specified_extract_rating_def find_rating_page text_of_para rating_as_specified_def
        strip_def is_space_def)
qed

lemma split_main_st:
  "split CHR '','' ''Main St 5, 10115 Berlin'' = [''Main St 5'', '' 10115 Berlin'']"
  by simp

lemma split_berlin: "split CHR '' '' '' 10115 Berlin'' = ['''', ''10115'', ''Berlin'']"
  by simp

text \<open>
  Claim C5. When the address element reads \<open>Main St 5, 10115 Berlin\<close>, the text is split
  at the comma into \<open>Main St 5\<close> and \<open> 10115 Berlin\<close>; the second segment split at spaces
  is an empty piece, \<open>10115\<close> and \<open>Berlin\<close>; the result holds the segments, then piece 2
  (\<open>Berlin\<close>), piece 1 (\<open>10115\<close>) and the first segment unchanged (\<open>Main St 5\<close>).
\<close>

theorem address_main_st:
  "find_class ''p'' ''MuiTypography-root MuiTypography-body1 css-1619old'' soup = Some e \<and>
   text_of e = ''Main St 5, 10115 Berlin'' \<longrightarrow>
     split CHR '','' (text_of e) = [''Main St 5'', '' 10115 Berlin''] \<and>
     split CHR '' '' (split CHR '','' (text_of e) ! 1) = ['''', ''10115'', ''Berlin''] \<and>
     extract_address soup =
       Inr (Some [''Main St 5'', '' 10115 Berlin''], Some ''Berlin'', Some ''10115'',
            Some ''Main St 5'')"
proof
  assume a: "find_class ''p'' ''MuiTypography-root MuiTypography-body1 css-1619old'' soup = Some e \<and>
   text_of e = ''Main St 5, 10115 Berlin''"
  note t = a [THEN conjunct2]
  have s1: "split CHR '','' (text_of e) = [''Main St 5'', '' 10115 Berlin'']"
    unfolding t by (rule split_main_st)
  have s2: "split CHR '' '' (split CHR '','' (text_of e) ! 1) = ['''', ''10115'', ''Berlin'']"
    unfolding s1 by (simp add: split_berlin)
  have r: "extract_address soup =
       Inr (Some [''Main St 5'', '' 10115 Berlin''], Some ''Berlin'', Some ''10115'',
            Some ''Main St 5'')"
    unfolding extract_address_found [OF a [THEN conjunct1]] Let_def s2 s1 by simp
  show "split CHR '','' (text_of e) = [''Main St 5'', '' 10115 Berlin''] \<and>
     split CHR '' '' (split CHR '','' (text_of e) ! 1) = ['''', ''10115'', ''Berlin''] \<and>
     extract_address soup =
       Inr (Some [''Main St 5'', '' 10115 Berlin''], Some ''Berlin'', Some ''10115'',
            Some ''Main St 5'')"
    by (intro conjI s1 s2 r)
qed

theorem address_main_st_witness:
  "find_class ''p'' ''MuiTypography-root MuiTypography-body1 css-1619old''
     (address_page ''Main St 5, 10115 Berlin'') = Some (para ''css-1619old'' ''Main St 5, 10115 Berlin'') \<and>
   text_of (para ''css-1619old'' ''Main St 5, 10115 Berlin'') = ''Main St 5, 10115 Berlin'' \<and>
   extract_address (address_page ''Main St 5, 10115 Berlin'') =
     Inr (Some [''Main St 5'', '' 10115 Berlin''], Some ''Berlin'', Some ''10115'', Some ''Main St 5'')"
proof -
  note t = address_main_st [of "address_page ''Main St 5, 10115 Berlin''"
      "para ''css-1619old'' ''Main St 5, 10115 Berlin''"]
  have h: "find_class ''p'' ''MuiTypography-root MuiTypography-body1 css-1619old''
       (address_page ''Main St 5, 10115 Berlin'') =
       Some (para ''css-1619old'' ''Main St 5, 10115 Berlin'') \<and>
     text_of (para ''css-1619old'' ''Main St 5, 10115 Berlin'') = ''Main St 5, 10115 Berlin''"
    by (intro conjI find_address_page text_of_para)
  have r: "extract_address (address_page ''Main St 5, 10115 Berlin'') =
     Inr (Some [''Main St 5'', '' 10115 Berlin''], Some ''Berlin'', Some ''10115'', Some ''Main St 5'')"
    by (rule t [THEN mp, OF h, THEN conjunct2, THEN conjunct2])
  show ?thesis
    by (intro conjI find_address_page text_of_para r)
qed

lemma step_other_exception:
  "load u = Inl e \<Longrightarrow> e = IndexError \<or> e = OtherException m \<Longrightarrow>
   step load st u =
     st\<lparr>logged := logged st @
        [LogWarning (''Error accessing element '' @ [CHR 0x27] @ ''overview buttons'' @
           [CHR 0x27] @ '': '' @ str_exn e)]\<rparr>"
  by (auto simp: step_def handle_element_error_def log_warning_def)

lemma address_page_buttons: "extract_overview_buttons (address_page t) = []"
  by (simp add: extract_overview_buttons_def address_page_def para_def find_all_class_def
      is_tag_def)

text \<open>
  Claim C6, as amended. When the address element is found, \<open>extract_address\<close> raises
  \<open>IndexError\<close> exactly when the text has fewer than two segments between commas or the
  second segment has fewer than three pieces between spaces; in particular a text without
  a comma raises. The extractor records nothing. The loop does not extract the address:
  for a document it could load it prints the overview buttons and logs nothing, and an
  exception other than a request exception raised in a turn is logged as one warning
  under the name \<open>overview buttons\<close>, with nothing printed for that locator.
\<close>

theorem address_too_few_tokens_raises:
  "(find_class ''p'' ''MuiTypography-root MuiTypography-body1 css-1619old'' soup = Some e \<longrightarrow>
      (extract_address soup = Inl IndexError) =
        (length (split CHR '','' (text_of e)) < 2 \<or>
         length (split CHR '' '' (split CHR '','' (text_of e) ! 1)) < 3)) \<and>
   (find_class ''p'' ''MuiTypography-root MuiTypography-body1 css-1619old'' soup = Some e \<and>
    CHR '','' \<notin> set (text_of e) \<longrightarrow>
      extract_address soup = Inl IndexError) \<and>
   (load u = Inr soup \<longrightarrow>
      step load st u = st\<lparr>printed := printed st @ [Buttons u (extract_overview_buttons soup)]\<rparr>) \<and>
   (load u = Inl x \<and> (x = IndexError \<or> x = OtherException m) \<longrightarrow>
      step load st u =
        st\<lparr>logged := logged st @
          [LogWarning (''Error accessing element '' @ [CHR 0x27] @ ''overview buttons'' @
             [CHR 0x27] @ '': '' @ str_exn x)]\<rparr>)"
proof (intro conjI impI)
  assume f: "find_class ''p'' ''MuiTypography-root MuiTypography-body1 css-1619old'' soup = Some e"
  show "(extract_address soup = Inl IndexError) =
        (length (split CHR '','' (text_of e)) < 2 \<or>
         length (split CHR '' '' (split CHR '','' (text_of e) ! 1)) < 3)"
    unfolding extract_address_found [OF f] Let_def by auto
next
  assume a: "find_class ''p'' ''MuiTypography-root MuiTypography-body1 css-1619old'' soup = Some e \<and>
    CHR '','' \<notin> set (text_of e)"
  then have "\<not> 1 < length (split CHR '','' (text_of e))"
    by (simp only: length_split_one not_False_eq_True)
  then show "extract_address soup = Inl IndexError"
    unfolding extract_address_found [OF a [THEN conjunct1]] Let_def by simp
next
  assume "load u = Inr soup"
  then show "step load st u =
      st\<lparr>printed := printed st @ [Buttons u (extract_overview_buttons soup)]\<rparr>"
    by (rule step_loaded)
next
  assume a: "load u = Inl x \<and> (x = IndexError \<or> x = OtherException m)"
  show "step load st u =
        st\<lparr>logged := logged st @
          [LogWarning (''Error accessing element '' @ [CHR 0x27] @ ''overview buttons'' @
             [CHR 0x27] @ '': '' @ str_exn x)]\<rparr>"
    by (rule step_other_exception [where load = load and u = u and e = x and m = m,
          OF a [THEN conjunct1] a [THEN conjunct2]])
qed

theorem address_too_few_tokens_raises_witness:
  "find_class ''p'' ''MuiTypography-root MuiTypography-body1 css-1619old''
     (address_page ''Main St 5'') = Some (para ''css-1619old'' ''Main St 5'') \<and>
   CHR '','' \<notin> set (text_of (para ''css-1619old'' ''Main St 5'')) \<and>
   extract_address (address_page ''Main St 5'') = Inl IndexError \<and>
   length (split CHR '' '' (split CHR '','' (text_of (para ''css-1619old'' ''Main St 5,Berlin'')) ! 1)) < 3 \<and>
   extract_address (address_page ''Main St 5,Berlin'') = Inl IndexError \<and>
   step (\<lambda>u. Inr (address_page ''Main St 5'')) start ''https://www.eversports.de/s/nordpole'' =
     \<lparr>printed = [Buttons ''https://www.eversports.de/s/nordpole'' []], logged = []\<rparr> \<and>
   step (\<lambda>u. Inl (OtherException ''parse'')) start ''https://www.eversports.de/s/nordpole'' =
     \<lparr>printed = [],
      logged = [LogWarning (''Error accessing element '' @ [CHR 0x27] @ ''overview buttons'' @
                  [CHR 0x27] @ '': parse'')]\<rparr>"
proof -
  note t1 = address_too_few_tokens_raises [of "address_page ''Main St 5''"
      "para ''css-1619old'' ''Main St 5''" "\<lambda>u. Inr (address_page ''Main St 5'')"
      "''https://www.eversports.de/s/nordpole''" start]
  note t2 = address_too_few_tokens_raises [of "address_page ''Main St 5,Berlin''"
      "para ''css-1619old'' ''Main St 5,Berlin''"]
  note t3 = address_too_few_tokens_raises [of _ _ "\<lambda>u. Inl (OtherException ''parse'')"
      "''https://www.eversports.de/s/nordpole''" start "OtherException ''parse''" "''parse''"]
  have c: "CHR '','' \<notin> set (text_of (para ''css-1619old'' ''Main St 5''))"
    by (simp add: text_of_para)
  have r1: "extract_address (address_page ''Main St 5'') = Inl IndexError"
    by (rule t1 [THEN conjunct2, THEN conjunct1, THEN mp]) (intro conjI find_address_page c)
  have k: "length (split CHR '' '' (split CHR '','' (text_of (para ''css-1619old'' ''Main St 5,Berlin'')) ! 1)) < 3"
    by (simp add: text_of_para)
  have r2: "extract_address (address_page ''Main St 5,Berlin'') = Inl IndexError"
    using t2 [THEN conjunct1, THEN mp, OF find_address_page] k by (simp only: disj_commute simp_thms)
  have "step (\<lambda>u. Inr (address_page ''Main St 5'')) start ''https://www.eversports.de/s/nordpole'' =
      start\<lparr>printed := printed start @
        [Buttons ''https://www.eversports.de/s/nordpole''
          (extract_overview_buttons (address_page ''Main St 5''))]\<rparr>"
    by (rule t1 [THEN conjunct2, THEN conjunct2, THEN conjunct1, THEN mp]) (rule refl)
  then have r3: "step (\<lambda>u. Inr (address_page ''Main St 5'')) start
      ''https://www.eversports.de/s/nordpole'' =
      \<lparr>printed = [Buttons ''https://www.eversports.de/s/nordpole'' []], logged = []\<rparr>"
    by (simp add: start_def address_page_buttons)
  have "step (\<lambda>u. Inl (OtherException ''parse'')) start ''https://www.eversports.de/s/nordpole'' =
      start\<lparr>logged := logged start @
          [LogWarning (''Error accessing element '' @ [CHR 0x27] @ ''overview buttons'' @
             [CHR 0x27] @ '': '' @ str_exn (OtherException ''parse''))]\<rparr>"
    by (rule t3 [THEN conjunct2, THEN conjunct2, THEN conjunct2, THEN mp]) simp
  then have r4: "step (\<lambda>u. Inl (OtherException ''parse'')) start
      ''https://www.eversports.de/s/nordpole'' =
     \<lparr>printed = [],
      logged = [LogWarning (''Error accessing element '' @ [CHR 0x27] @ ''overview buttons'' @
                  [CHR 0x27] @ '': parse'')]\<rparr>"
    by (simp add: start_def)
  show ?thesis
    by (intro conjI find_address_page c r1 k r2 r3 r4)
qed

text \<open>
  Claim C6 as stated fails: for the address texts \<open>Main St 5\<close> (no comma) and
  \<open>Main St 5,Berlin\<close> (a second segment of one piece) the extractor raises \<open>IndexError\<close>
  instead of returning an absent address, and the loop, which never extracts the address,
  logs nothing for such a document.
\<close>

theorem address_no_field_error_counterexample:
  "extract_address (address_page ''Main St 5'') = Inl IndexError \<and>
   extract_address (address_page ''Main St 5'') \<noteq> Inr (None, None, None, None) \<and>
   extract_address (address_page ''Main St 5,Berlin'') = Inl IndexError \<and>
   logged (step (\<lambda>u. Inr (address_page ''Main St 5'')) start
     ''https://www.eversports.de/s/nordpole'') = []"
proof -
  have r1: "extract_address (address_page ''Main St 5'') = Inl IndexError"
    unfolding extract_address_found [OF find_address_page] text_of_para Let_def by simp
  have r2: "extract_address (address_page ''Main St 5,Berlin'') = Inl IndexError"
    unfolding extract_address_found [OF find_address_page] text_of_para Let_def by simp
  have r3: "logged (step (\<lambda>u. Inr (address_page ''Main St 5'')) start
     ''https://www.eversports.de/s/nordpole'') = []"
    by (simp add: step_def start_def)
  show ?thesis
    by (intro conjI r1 r2 r3) (simp add: r1)
qed

end
